theory Spec2Isabelle
  imports Main "HOL-Library.Sublist"
begin

section \<open>JavaScript values\<close>

text \<open>
  The values that cross the program's boundaries (message fields, stored values, fields of a
  parsed response body) are dynamically typed.  The program only ever tests them for
  truthiness, compares them with \<open>===\<close> against string literals and interpolates them into
  template strings, so that is what the model keeps.  Of a number it keeps what
  \<open>String(n)\<close> yields (plain decimal, a fraction or exponent form, as JavaScript prints
  it) and whether the number is truthy, that is neither zero nor \<open>NaN\<close>.  \<open>JOther\<close>
  stands for any object or array and carries what \<open>String(v)\<close> yields for it.
\<close>

datatype jsval = JUndefined | JNull | JBool bool | JNum string bool | JStr string | JOther string

fun truthy :: "jsval \<Rightarrow> bool" where
  "truthy JUndefined = False"
| "truthy JNull = False"
| "truthy (JBool b) = b"
| "truthy (JNum s nonzero) = nonzero"
| "truthy (JStr s) = (s \<noteq> [])"
| "truthy (JOther s) = True"

text \<open>
  \<open>response.status\<close> is an integer below 1000; inside a template literal it prints in
  plain decimal.
\<close>

definition digit_char :: "nat \<Rightarrow> char" where
  "digit_char d = ''0123456789'' ! d"

fun show_nat :: "nat \<Rightarrow> string" where
  "show_nat n = (if n < 10 then [digit_char n] else show_nat (n div 10) @ [digit_char (n mod 10)])"

declare show_nat.simps [simp del]

text \<open>The string a value becomes inside a template literal \<open>`${v}`\<close>.\<close>

fun js_to_string :: "jsval \<Rightarrow> string" where
  "js_to_string JUndefined = ''undefined''"
| "js_to_string JNull = ''null''"
| "js_to_string (JBool b) = (if b then ''true'' else ''false'')"
| "js_to_string (JNum s nonzero) = s"
| "js_to_string (JStr s) = s"
| "js_to_string (JOther s) = s"

section \<open>Configuration\<close>

definition PROD_API_URL :: string where "PROD_API_URL = ''https://api.dialogbrain.com''"
definition DEV_API_URL :: string where "DEV_API_URL = ''http://localhost:8000''"
definition IS_DEV :: bool where "IS_DEV = False"
definition DEBOUNCE_MS :: nat where "DEBOUNCE_MS = 2000"
definition FALLBACK_SYNC_HOURS :: nat where "FALLBACK_SYNC_HOURS = 6"

definition getApiUrl :: string where
  "getApiUrl = (if IS_DEV then DEV_API_URL else PROD_API_URL)"

definition INSTAGRAM_COOKIES :: "string list" where
  "INSTAGRAM_COOKIES = [''sessionid'', ''csrftoken'', ''ds_user_id'', ''mid'']"

definition LINKEDIN_COOKIES :: "string list" where
  "LINKEDIN_COOKIES = [''li_at'', ''li_a'', ''JSESSIONID'']"

section \<open>State\<close>

text \<open>
  An object with one field per platform: the shape of \<open>pendingSyncs\<close>, of \<open>syncStatus\<close>
  and of the status replies.
\<close>

record 'a per_platform =
  instagram :: 'a
  linkedin :: 'a

text \<open>
  A status object.  The failure paths build it without a \<open>status\<close> key, the success path
  with one: \<open>status = None\<close> is the missing key.  \<open>lastSync\<close> and \<open>error\<close> are \<open>null\<close>
  or a string.
\<close>

record sync_status =
  syncing :: bool
  lastSync :: "string option"
  error :: "string option"
  status :: "jsval option"

text \<open>
  \<open>chrome.storage.local\<close> is a map from keys to stored values; the global \<open>syncStatus\<close>
  lives beside it.  The timers are kept apart, in the scheduler state below.  Reads and
  writes of the store are taken to succeed.
\<close>

record world =
  storage :: "string \<rightharpoonup> jsval"
  syncStatus :: "sync_status per_platform"

definition initial_status :: sync_status where
  "initial_status = \<lparr>syncing = False, lastSync = None, error = None, status = None\<rparr>"

definition initial_world :: world where
  "initial_world = \<lparr>storage = Map.empty,
     syncStatus = \<lparr>instagram = initial_status, linkedin = initial_status\<rparr>\<rparr>"

text \<open>\<open>chrome.storage.local.get(keys)\<close>: an object holding those of the keys that are stored.\<close>

definition storage_get :: "string list \<Rightarrow> (string \<rightharpoonup> jsval) \<Rightarrow> (string \<rightharpoonup> jsval)" where
  "storage_get keys st = (\<lambda>k. if k \<in> set keys then st k else None)"

text \<open>Reading a property of an object: \<open>undefined\<close> when the key is missing.\<close>

definition field :: "(string \<rightharpoonup> jsval) \<Rightarrow> string \<Rightarrow> jsval" where
  "field obj k = (case obj k of None \<Rightarrow> JUndefined | Some v \<Rightarrow> v)"

text \<open>
  \<open>chrome.storage.local.set({k: v})\<close>.  A value of \<open>undefined\<close> is not serialisable and
  the store skips the key.
\<close>

definition storage_set :: "string \<Rightarrow> jsval \<Rightarrow> (string \<rightharpoonup> jsval) \<Rightarrow> (string \<rightharpoonup> jsval)" where
  "storage_set k v st = (if v = JUndefined then st else st(k \<mapsto> v))"

definition storage_remove :: "string list \<Rightarrow> (string \<rightharpoonup> jsval) \<Rightarrow> (string \<rightharpoonup> jsval)" where
  "storage_remove keys st = (\<lambda>k. if k \<in> set keys then None else st k)"

section \<open>The browser's side\<close>

text \<open>
  \<open>chrome.cookies.get({url, name})\<close> yields a cookie or \<open>null\<close>; of a cookie the program
  reads only \<open>value\<close>.  The cookie jar maps a URL and a name to the value of the cookie
  stored there, if there is one.  A cookie may exist with the empty string as its value.
\<close>

type_synonym cookie_jar = "string \<Rightarrow> string \<Rightarrow> string option"

text \<open>\<open>c?.value || null\<close>: \<open>null\<close> for a missing cookie and for an empty value.\<close>

definition value_or_null :: "string option \<Rightarrow> string option" where
  "value_or_null c = (case c of None \<Rightarrow> None | Some v \<Rightarrow> if v = [] then None else Some v)"

record credential_bundle =
  user_agent :: string

record instagram_cookies = credential_bundle +
  sessionid :: "string option"
  csrftoken :: "string option"
  ds_user_id :: "string option"
  mid :: "string option"

record linkedin_cookies = credential_bundle +
  li_at :: "string option"
  li_a :: "string option"
  jsessionid :: "string option"

datatype payload = InstagramBody instagram_cookies | LinkedInBody linkedin_cookies

record request =
  endpoint :: string
  http_method :: string
  content_type :: string
  authorization :: string
  body :: payload

text \<open>
  What the program sees of a \<open>fetch\<close>: the promise rejects (\<open>NetworkError\<close>, with the
  error's message), or it resolves to a response with a status and a body still to be
  read.  Reading the body can fail (the connection breaks while it streams):
  \<open>BodyUnreadable\<close>, with the error's message; then \<open>response.json()\<close> and
  \<open>response.text()\<close> both reject.  Of a body that can be read, \<open>response.text()\<close>
  resolves, and \<open>response.json()\<close> rejects when the body is not JSON (\<open>BodyInvalid\<close>,
  with the error's message); a body that parses to \<open>null\<close> makes \<open>data.account_id\<close>
  throw (\<open>BodyNull\<close>); of any other parsed body the program reads the fields
  \<open>account_id\<close> and \<open>status\<close>, \<open>undefined\<close> where the body has none (\<open>BodyData\<close>).
\<close>

datatype response_body =
    BodyUnreadable string
  | BodyInvalid string
  | BodyNull
  | BodyData jsval jsval

datatype fetch_outcome = NetworkError string | HttpResponse nat response_body

definition response_ok :: "nat \<Rightarrow> bool" where
  "response_ok st = (200 \<le> st \<and> st \<le> 299)"

definition null_property_message :: string where
  "null_property_message = ''Cannot read properties of null (reading 'account_id')''"

text \<open>
  The environment of one run of a handler: the cookie jar, \<open>navigator.userAgent\<close>, what
  \<open>chrome.runtime.getManifest().version\<close>, what \<open>new Date().toISOString()\<close> returns,
  and how the backend answers a request.
\<close>

record env =
  cookies :: cookie_jar
  userAgent :: string
  manifest_version :: string
  now :: string
  fetch :: "request \<Rightarrow> fetch_outcome"

section \<open>Instagram cookie sync\<close>

definition getInstagramCookies :: "env \<Rightarrow> instagram_cookies" where
  "getInstagramCookies e =
     (let cs = map (\<lambda>name. cookies e ''https://www.instagram.com'' name) INSTAGRAM_COOKIES
      in \<lparr>user_agent = userAgent e,
          sessionid = value_or_null (cs ! 0),
          csrftoken = value_or_null (cs ! 1),
          ds_user_id = value_or_null (cs ! 2),
          mid = value_or_null (cs ! 3)\<rparr>)"

text \<open>
  A sync suspended at \<open>await fetch(...)\<close>: the local \<open>storage\<close> it read when it started,
  and the request it sent.
\<close>

record in_flight =
  snapshot :: "string \<rightharpoonup> jsval"
  sent :: request

definition set_instagram :: "sync_status \<Rightarrow> world \<Rightarrow> world" where
  "set_instagram s w = w\<lparr>syncStatus := (syncStatus w)\<lparr>instagram := s\<rparr>\<rparr>"

definition set_linkedin :: "sync_status \<Rightarrow> world \<Rightarrow> world" where
  "set_linkedin s w = w\<lparr>syncStatus := (syncStatus w)\<lparr>linkedin := s\<rparr>\<rparr>"

definition failed :: "string \<Rightarrow> sync_status" where
  "failed msg = \<lparr>syncing = False, lastSync = None, error = Some msg, status = None\<rparr>"

text \<open>
  \<open>syncInstagramCookies\<close> up to the point where the request is sent: either the run is over
  (no token, no session) and nothing was sent, or the request is in flight.
\<close>

definition syncInstagramCookies_begin :: "env \<Rightarrow> world \<Rightarrow> world \<times> in_flight option" where
  "syncInstagramCookies_begin e w =
     (let storage = storage_get [''auth_token'', ''instagram_account_id''] (storage w);
          authToken = field storage ''auth_token''
      in if \<not> truthy authToken then (set_instagram (failed ''Not logged in'') w, None)
         else
           let cookies = getInstagramCookies e
           in if sessionid cookies = None
              then (set_instagram (failed ''Not logged in to Instagram'') w, None)
              else
                let w1 = set_instagram ((instagram (syncStatus w))\<lparr>syncing := True\<rparr>) w;
                    apiUrl = getApiUrl;
                    endpoint =
                      (if truthy (field storage ''instagram_account_id'')
                       then apiUrl @ ''/api/channels/instagram/accounts/''
                              @ js_to_string (field storage ''instagram_account_id'')
                              @ ''/sync-cookie''
                       else apiUrl @ ''/api/channels/instagram/accounts/connect/cookie'')
                in (w1, Some \<lparr>snapshot = storage,
                      sent = \<lparr>endpoint = endpoint, http_method = ''POST'',
                               content_type = ''application/json'',
                               authorization = ''Bearer '' @ js_to_string authToken,
                               body = InstagramBody cookies\<rparr>\<rparr>))"

text \<open>
  The rest of \<open>syncInstagramCookies\<close>, from the outcome of the \<open>fetch\<close> on: \<open>w\<close> is the world
  at that moment, \<open>t\<close> the timestamp taken on success.  Everything here runs inside the
  \<open>try\<close>: on a status outside 200..299 the routine first awaits \<open>response.text()\<close>
  (into \<open>errorText\<close>, which it never uses), and a rejection there lands in the \<open>catch\<close>
  like any other.
\<close>

definition syncInstagramCookies_resume :: "string \<Rightarrow> in_flight \<Rightarrow> fetch_outcome \<Rightarrow> world \<Rightarrow> world" where
  "syncInstagramCookies_resume t p out w =
     (case out of
        NetworkError msg \<Rightarrow> set_instagram (failed msg) w
      | HttpResponse st b \<Rightarrow>
          if response_ok st then
            (case b of
               BodyUnreadable msg \<Rightarrow> set_instagram (failed msg) w
             | BodyInvalid msg \<Rightarrow> set_instagram (failed msg) w
             | BodyNull \<Rightarrow> set_instagram (failed null_property_message) w
             | BodyData account_id data_status \<Rightarrow>
                 let w1 = (if truthy account_id \<and> \<not> truthy (field (snapshot p) ''instagram_account_id'')
                           then w\<lparr>storage := storage_set ''instagram_account_id'' account_id (storage w)\<rparr>
                           else w)
                 in set_instagram
                      \<lparr>syncing = False, lastSync = Some t, error = None,
                       status = Some (if truthy data_status then data_status else JStr ''connected'')\<rparr>
                      w1)
          else
            (case b of
               BodyUnreadable msg \<Rightarrow> set_instagram (failed msg) w
             | _ \<Rightarrow> set_instagram (failed (''HTTP '' @ show_nat st)) w))"

text \<open>One invocation run from start to end with nothing else in between.\<close>

definition syncInstagramCookies :: "env \<Rightarrow> world \<Rightarrow> world \<times> request list" where
  "syncInstagramCookies e w =
     (case syncInstagramCookies_begin e w of
        (w1, None) \<Rightarrow> (w1, [])
      | (w1, Some p) \<Rightarrow> (syncInstagramCookies_resume (now e) p (fetch e (sent p)) w1, [sent p]))"

section \<open>LinkedIn cookie sync\<close>

definition getLinkedInCookies :: "env \<Rightarrow> linkedin_cookies" where
  "getLinkedInCookies e =
     (let cs = [cookies e ''https://www.linkedin.com'' ''li_at'',
                cookies e ''https://www.linkedin.com'' ''li_a'',
                cookies e ''https://www.linkedin.com'' ''JSESSIONID'']
      in \<lparr>user_agent = userAgent e,
          li_at = value_or_null (cs ! 0),
          li_a = value_or_null (cs ! 1),
          jsessionid = value_or_null (cs ! 2)\<rparr>)"

definition syncLinkedInCookies_begin :: "env \<Rightarrow> world \<Rightarrow> world \<times> in_flight option" where
  "syncLinkedInCookies_begin e w =
     (let storage = storage_get [''auth_token'', ''linkedin_account_id''] (storage w);
          authToken = field storage ''auth_token''
      in if \<not> truthy authToken then (set_linkedin (failed ''Not logged in'') w, None)
         else
           let cookies = getLinkedInCookies e
           in if li_at cookies = None
              then (set_linkedin (failed ''Not logged in to LinkedIn'') w, None)
              else
                let w1 = set_linkedin ((linkedin (syncStatus w))\<lparr>syncing := True\<rparr>) w;
                    apiUrl = getApiUrl;
                    endpoint =
                      (if truthy (field storage ''linkedin_account_id'')
                       then apiUrl @ ''/api/channels/linkedin/accounts/''
                              @ js_to_string (field storage ''linkedin_account_id'')
                              @ ''/sync-cookie''
                       else apiUrl @ ''/api/channels/linkedin/accounts/connect/cookie'')
                in (w1, Some \<lparr>snapshot = storage,
                      sent = \<lparr>endpoint = endpoint, http_method = ''POST'',
                               content_type = ''application/json'',
                               authorization = ''Bearer '' @ js_to_string authToken,
                               body = LinkedInBody cookies\<rparr>\<rparr>))"

definition syncLinkedInCookies_resume :: "string \<Rightarrow> in_flight \<Rightarrow> fetch_outcome \<Rightarrow> world \<Rightarrow> world" where
  "syncLinkedInCookies_resume t p out w =
     (case out of
        NetworkError msg \<Rightarrow> set_linkedin (failed msg) w
      | HttpResponse st b \<Rightarrow>
          if response_ok st then
            (case b of
               BodyUnreadable msg \<Rightarrow> set_linkedin (failed msg) w
             | BodyInvalid msg \<Rightarrow> set_linkedin (failed msg) w
             | BodyNull \<Rightarrow> set_linkedin (failed null_property_message) w
             | BodyData account_id data_status \<Rightarrow>
                 let w1 = (if truthy account_id \<and> \<not> truthy (field (snapshot p) ''linkedin_account_id'')
                           then w\<lparr>storage := storage_set ''linkedin_account_id'' account_id (storage w)\<rparr>
                           else w)
                 in set_linkedin
                      \<lparr>syncing = False, lastSync = Some t, error = None,
                       status = Some (if truthy data_status then data_status else JStr ''connected'')\<rparr>
                      w1)
          else set_linkedin (failed (''HTTP '' @ show_nat st)) w)"

definition syncLinkedInCookies :: "env \<Rightarrow> world \<Rightarrow> world \<times> request list" where
  "syncLinkedInCookies e w =
     (case syncLinkedInCookies_begin e w of
        (w1, None) \<Rightarrow> (w1, [])
      | (w1, Some p) \<Rightarrow> (syncLinkedInCookies_resume (now e) p (fetch e (sent p)) w1, [sent p]))"

section \<open>Message handlers\<close>

text \<open>
  A message is an object whose fields \<open>type\<close>, \<open>platform\<close> and \<open>token\<close> the handlers
  inspect; a field the message lacks reads as \<open>undefined\<close>.
\<close>

record message =
  msg_type :: jsval
  platform :: jsval
  token :: jsval

text \<open>\<open>sender.origin\<close> is a string, or \<open>undefined\<close> (\<open>None\<close>).\<close>

record sender =
  origin :: "string option"

text \<open>The objects passed to \<open>sendResponse\<close>, one constructor for each shape.\<close>

datatype response =
    StatusReply "sync_status per_platform"
  | ManualSyncReply bool sync_status
  | SuccessReply bool
  | CookiesReply "bool per_platform"
  | ErrorReply string
  | PingReply bool string
  | ExternalStatusReply bool string "sync_status per_platform"
  | ExternalCookiesReply bool "bool per_platform"
  | TriggerSyncReply bool "sync_status per_platform"

text \<open>
  What one run of a listener did: the world it leaves, the object given to \<open>sendResponse\<close>
  (\<open>None\<close>: \<open>sendResponse\<close> was never called), whether the listener returned \<open>true\<close> (which
  keeps the reply channel open), and the requests sent.
\<close>

record handled =
  after :: world
  reply :: "response option"
  returned_true :: bool
  requests :: "request list"

definition logged_out_status :: "sync_status per_platform" where
  "logged_out_status =
     \<lparr>instagram = \<lparr>syncing = False, lastSync = None, error = Some ''Not logged in'', status = None\<rparr>,
      linkedin = \<lparr>syncing = False, lastSync = None, error = Some ''Not logged in'', status = None\<rparr>\<rparr>"

definition onMessage :: "env \<Rightarrow> message \<Rightarrow> world \<Rightarrow> handled" where
  "onMessage e message w =
     (if msg_type message = JStr ''GET_STATUS'' then
        \<lparr>after = w,
         reply = Some (StatusReply \<lparr>instagram = instagram (syncStatus w),
                                   linkedin = linkedin (syncStatus w)\<rparr>),
         returned_true = True, requests = []\<rparr>
      else if msg_type message = JStr ''MANUAL_SYNC'' then
        (if platform message = JStr ''instagram'' then
           (case syncInstagramCookies e w of
              (w1, rs) \<Rightarrow> \<lparr>after = w1,
                           reply = Some (ManualSyncReply True (instagram (syncStatus w1))),
                           returned_true = True, requests = rs\<rparr>)
         else if platform message = JStr ''linkedin'' then
           (case syncLinkedInCookies e w of
              (w1, rs) \<Rightarrow> \<lparr>after = w1,
                           reply = Some (ManualSyncReply True (linkedin (syncStatus w1))),
                           returned_true = True, requests = rs\<rparr>)
         else \<lparr>after = w, reply = None, returned_true = True, requests = []\<rparr>)
      else if msg_type message = JStr ''SET_AUTH_TOKEN'' then
        \<lparr>after = w\<lparr>storage := storage_set ''auth_token'' (token message) (storage w)\<rparr>,
         reply = Some (SuccessReply True), returned_true = True, requests = []\<rparr>
      else if msg_type message = JStr ''LOGOUT'' then
        \<lparr>after = w\<lparr>storage := storage_remove
                         [''auth_token'', ''instagram_account_id'', ''linkedin_account_id'']
                         (storage w),
                     syncStatus := logged_out_status\<rparr>,
         reply = Some (SuccessReply True), returned_true = True, requests = []\<rparr>
      else if msg_type message = JStr ''CHECK_COOKIES'' then
        (let instagram = getInstagramCookies e;
             linkedin = getLinkedInCookies e
         in \<lparr>after = w,
             reply = Some (CookiesReply \<lparr>instagram = (sessionid instagram \<noteq> None),
                                        linkedin = (li_at linkedin \<noteq> None)\<rparr>),
             returned_true = True, requests = []\<rparr>)
      else \<lparr>after = w, reply = None, returned_true = False, requests = []\<rparr>)"

section \<open>External message handlers\<close>

definition allowedOrigins :: "string list" where
  "allowedOrigins = [''https://dialogbrain.com'', ''https://app.dialogbrain.com'',
     ''http://localhost:3000'']"

text \<open>\<open>allowedOrigins.some(origin => sender.origin?.startsWith(origin))\<close>\<close>

definition origin_allowed :: "sender \<Rightarrow> bool" where
  "origin_allowed sender =
     list_ex (\<lambda>allowed. case origin sender of None \<Rightarrow> False | Some s \<Rightarrow> prefix allowed s)
       allowedOrigins"

definition onMessageExternal :: "env \<Rightarrow> sender \<Rightarrow> message \<Rightarrow> world \<Rightarrow> handled" where
  "onMessageExternal e sender message w =
     (if \<not> origin_allowed sender then
        \<lparr>after = w, reply = Some (ErrorReply ''Unauthorized origin''),
         returned_true = False, requests = []\<rparr>
      else if msg_type message = JStr ''PING'' then
        \<lparr>after = w, reply = Some (PingReply True (manifest_version e)),
         returned_true = True, requests = []\<rparr>
      else if msg_type message = JStr ''GET_STATUS'' then
        \<lparr>after = w,
         reply = Some (ExternalStatusReply True (manifest_version e)
                         \<lparr>instagram = instagram (syncStatus w),
                          linkedin = linkedin (syncStatus w)\<rparr>),
         returned_true = True, requests = []\<rparr>
      else if msg_type message = JStr ''SET_AUTH_TOKEN'' then
        \<lparr>after = w\<lparr>storage := storage_set ''auth_token'' (token message) (storage w)\<rparr>,
         reply = Some (SuccessReply True), returned_true = True, requests = []\<rparr>
      else if msg_type message = JStr ''CHECK_COOKIES'' then
        (let instagram = getInstagramCookies e;
             linkedin = getLinkedInCookies e
         in \<lparr>after = w,
             reply = Some (ExternalCookiesReply True
                             \<lparr>instagram = (sessionid instagram \<noteq> None),
                              linkedin = (li_at linkedin \<noteq> None)\<rparr>),
             returned_true = True, requests = []\<rparr>)
      else if msg_type message = JStr ''TRIGGER_SYNC'' then
        (let (w1, rs1) =
               (if platform message = JStr ''instagram'' \<or> platform message = JStr ''all''
                then syncInstagramCookies e w else (w, []));
             (w2, rs2) =
               (if platform message = JStr ''linkedin'' \<or> platform message = JStr ''all''
                then syncLinkedInCookies e w1 else (w1, []))
         in \<lparr>after = w2,
             reply = Some (TriggerSyncReply True
                             \<lparr>instagram = instagram (syncStatus w2),
                              linkedin = linkedin (syncStatus w2)\<rparr>),
             returned_true = True, requests = rs1 @ rs2\<rparr>)
      else \<lparr>after = w, reply = None, returned_true = False, requests = []\<rparr>)"

section \<open>Alarms and timer callbacks\<close>

text \<open>
  The alarm listener and the callbacks given to \<open>setTimeout\<close> start both syncs, or one,
  without awaiting them.  The two syncs write different fields of \<open>syncStatus\<close> and
  different storage keys and neither writes what the other reads, so running one after the
  other leaves the same world as any interleaving of the two.
\<close>

definition onAlarm :: "env \<Rightarrow> string \<Rightarrow> world \<Rightarrow> world \<times> request list" where
  "onAlarm e name w =
     (if name = ''fallbackSync'' then
        (case syncInstagramCookies e w of
           (w1, rs1) \<Rightarrow> (case syncLinkedInCookies e w1 of (w2, rs2) \<Rightarrow> (w2, rs1 @ rs2)))
      else (w, []))"

datatype callback = DebouncedInstagram | DebouncedLinkedIn | InitialSync

definition run_callback :: "env \<Rightarrow> callback \<Rightarrow> world \<Rightarrow> world \<times> request list" where
  "run_callback e cb w =
     (case cb of
        DebouncedInstagram \<Rightarrow> syncInstagramCookies e w
      | DebouncedLinkedIn \<Rightarrow> syncLinkedInCookies e w
      | InitialSync \<Rightarrow>
          (case syncInstagramCookies e w of
             (w1, rs1) \<Rightarrow> (case syncLinkedInCookies e w1 of (w2, rs2) \<Rightarrow> (w2, rs1 @ rs2))))"

text \<open>
  Everything that runs program code against the world: an alarm, a message on either
  channel, a timer callback.  (The listeners of \<open>cookies.onChanged\<close> and of
  \<open>runtime.onInstalled\<close> only set timers; they are in the scheduler below.)
\<close>

datatype event =
    Alarm string
  | Message message
  | MessageExternal sender message
  | TimerFired callback

definition dispatch :: "env \<Rightarrow> event \<Rightarrow> world \<Rightarrow> world \<times> request list" where
  "dispatch e ev w =
     (case ev of
        Alarm name \<Rightarrow> onAlarm e name w
      | Message m \<Rightarrow> (let h = onMessage e m w in (after h, requests h))
      | MessageExternal s m \<Rightarrow> (let h = onMessageExternal e s m w in (after h, requests h))
      | TimerFired cb \<Rightarrow> run_callback e cb w)"

text \<open>A history: each event with the environment it ran in.\<close>

fun run_events :: "(env \<times> event) list \<Rightarrow> world \<Rightarrow> world" where
  "run_events [] w = w"
| "run_events ((e, ev) # rest) w = run_events rest (fst (dispatch e ev w))"

section \<open>The cookie change listener and its timers\<close>

text \<open>
  The host's timer facility, in whole milliseconds: \<open>setTimeout\<close> hands out a fresh positive
  handle and queues the callback for \<open>clock + delay\<close>; \<open>clearTimeout\<close> drops the timer with
  that handle, if it is still queued.  \<open>pendingSyncs\<close> is the program's own global: per
  platform \<open>null\<close> or the handle of the last timer set.
\<close>

record change_info =
  cookie_domain :: string
  cookie_name :: string
  removed :: bool

record timer =
  timer_id :: nat
  on_fire :: callback
  due :: nat

record scheduler =
  pendingSyncs :: "nat option per_platform"
  timers :: "timer list"
  next_id :: nat
  clock :: nat

definition initial_scheduler :: scheduler where
  "initial_scheduler =
     \<lparr>pendingSyncs = \<lparr>instagram = None, linkedin = None\<rparr>, timers = [], next_id = 1, clock = 0\<rparr>"

definition setTimeout :: "callback \<Rightarrow> nat \<Rightarrow> scheduler \<Rightarrow> nat \<times> scheduler" where
  "setTimeout cb delay s =
     (next_id s,
      s\<lparr>timers := timers s @ [\<lparr>timer_id = next_id s, on_fire = cb, due = clock s + delay\<rparr>],
        next_id := Suc (next_id s)\<rparr>)"

definition clearTimeout :: "nat \<Rightarrow> scheduler \<Rightarrow> scheduler" where
  "clearTimeout i s = s\<lparr>timers := filter (\<lambda>tm. timer_id tm \<noteq> i) (timers s)\<rparr>"

text \<open>\<open>s.includes(sub)\<close>: \<open>sub\<close> occurs in \<open>s\<close>.\<close>

fun js_includes :: "string \<Rightarrow> string \<Rightarrow> bool" where
  "js_includes [] sub = (sub = [])"
| "js_includes (c # cs) sub = (prefix sub (c # cs) \<or> js_includes cs sub)"

definition onChanged :: "change_info \<Rightarrow> scheduler \<Rightarrow> scheduler" where
  "onChanged changeInfo s =
     (let s1 =
        (if js_includes (cookie_domain changeInfo) ''instagram.com''
            \<and> cookie_name changeInfo \<in> set INSTAGRAM_COOKIES
         then
           (let s' = (case instagram (pendingSyncs s) of
                        None \<Rightarrow> s
                      | Some i \<Rightarrow> if i \<noteq> 0 then clearTimeout i s else s)
            in case setTimeout DebouncedInstagram DEBOUNCE_MS s' of
                 (i, s'') \<Rightarrow> s''\<lparr>pendingSyncs := (pendingSyncs s'')\<lparr>instagram := Some i\<rparr>\<rparr>)
         else s)
      in
        (if js_includes (cookie_domain changeInfo) ''linkedin.com''
            \<and> cookie_name changeInfo \<in> set LINKEDIN_COOKIES
         then
           (let s' = (case linkedin (pendingSyncs s1) of
                        None \<Rightarrow> s1
                      | Some i \<Rightarrow> if i \<noteq> 0 then clearTimeout i s1 else s1)
            in case setTimeout DebouncedLinkedIn DEBOUNCE_MS s' of
                 (i, s'') \<Rightarrow> s''\<lparr>pendingSyncs := (pendingSyncs s'')\<lparr>linkedin := Some i\<rparr>\<rparr>)
         else s1))"

definition onInstalled :: "scheduler \<Rightarrow> scheduler" where
  "onInstalled s = snd (setTimeout InitialSync 5000 s)"

text \<open>
  Time passes until \<open>t\<close>: the timers due by then fire, earliest first, and leave the queue.
  The result lists each callback run with the time it was due.  (The callbacks start syncs;
  none of them sets or clears a timer.)
\<close>

definition advance :: "nat \<Rightarrow> scheduler \<Rightarrow> scheduler \<times> (nat \<times> callback) list" where
  "advance t s =
     (s\<lparr>timers := filter (\<lambda>tm. t < due tm) (timers s), clock := max t (clock s)\<rparr>,
      map (\<lambda>tm. (due tm, on_fire tm)) (sort_key due (filter (\<lambda>tm. due tm \<le> t) (timers s))))"

datatype sched_event = CookieChanged change_info | Installed | Tick

fun handle_sched :: "sched_event \<Rightarrow> scheduler \<Rightarrow> scheduler" where
  "handle_sched (CookieChanged ci) s = onChanged ci s"
| "handle_sched Installed s = onInstalled s"
| "handle_sched Tick s = s"

text \<open>A timed history: before each event the timers due by its time fire.\<close>

fun run_scheduler :: "(nat \<times> sched_event) list \<Rightarrow> scheduler \<Rightarrow> scheduler \<times> (nat \<times> callback) list" where
  "run_scheduler [] s = (s, [])"
| "run_scheduler ((t, ev) # rest) s =
     (case advance t s of
        (s1, fired1) \<Rightarrow>
          (case run_scheduler rest (handle_sched ev s1) of
             (s2, fired2) \<Rightarrow> (s2, fired1 @ fired2)))"

section \<open>Per-platform views\<close>

text \<open>
  The two sync routines are written out twice in the program.  To state a property once
  for both, the definitions below select the routine, the status field, the storage key
  and the cookie that belong to a platform.
\<close>

datatype platform_id = Instagram | LinkedIn

fun sync :: "platform_id \<Rightarrow> env \<Rightarrow> world \<Rightarrow> world \<times> request list" where
  "sync Instagram = syncInstagramCookies"
| "sync LinkedIn = syncLinkedInCookies"

fun sync_begin :: "platform_id \<Rightarrow> env \<Rightarrow> world \<Rightarrow> world \<times> in_flight option" where
  "sync_begin Instagram = syncInstagramCookies_begin"
| "sync_begin LinkedIn = syncLinkedInCookies_begin"

fun sync_resume :: "platform_id \<Rightarrow> string \<Rightarrow> in_flight \<Rightarrow> fetch_outcome \<Rightarrow> world \<Rightarrow> world" where
  "sync_resume Instagram = syncInstagramCookies_resume"
| "sync_resume LinkedIn = syncLinkedInCookies_resume"

fun status_of :: "platform_id \<Rightarrow> world \<Rightarrow> sync_status" where
  "status_of Instagram w = instagram (syncStatus w)"
| "status_of LinkedIn w = linkedin (syncStatus w)"

fun set_status :: "platform_id \<Rightarrow> sync_status \<Rightarrow> world \<Rightarrow> world" where
  "set_status Instagram = set_instagram"
| "set_status LinkedIn = set_linkedin"

fun presence_cookie :: "platform_id \<Rightarrow> env \<Rightarrow> string option" where
  "presence_cookie Instagram e = cookies e ''https://www.instagram.com'' ''sessionid''"
| "presence_cookie LinkedIn e = cookies e ''https://www.linkedin.com'' ''li_at''"

fun platform_label :: "platform_id \<Rightarrow> string" where
  "platform_label Instagram = ''Instagram''"
| "platform_label LinkedIn = ''LinkedIn''"

fun platform_slug :: "platform_id \<Rightarrow> string" where
  "platform_slug Instagram = ''instagram''"
| "platform_slug LinkedIn = ''linkedin''"

fun account_id_key :: "platform_id \<Rightarrow> string" where
  "account_id_key Instagram = ''instagram_account_id''"
| "account_id_key LinkedIn = ''linkedin_account_id''"

fun debounce_callback :: "platform_id \<Rightarrow> callback" where
  "debounce_callback Instagram = DebouncedInstagram"
| "debounce_callback LinkedIn = DebouncedLinkedIn"


text \<open>
  The two endpoints as the interface description gives them,
  \<open>POST <base>/api/channels/<platform>/accounts/connect/cookie\<close> and
  \<open>.../accounts/<account_id>/sync-cookie\<close>, on the production base URL.
\<close>

definition create_endpoint :: "platform_id \<Rightarrow> string" where
  "create_endpoint p =
     ''https://api.dialogbrain.com/api/channels/'' @ platform_slug p @ ''/accounts/connect/cookie''"

definition refresh_endpoint :: "platform_id \<Rightarrow> jsval \<Rightarrow> string" where
  "refresh_endpoint p v =
     ''https://api.dialogbrain.com/api/channels/'' @ platform_slug p @ ''/accounts/''
       @ js_to_string v @ ''/sync-cookie''"

text \<open>
  \<open>!!bundle.sessionid\<close> and \<open>!!bundle.li_at\<close> in terms of the cookie jar: the cookie is
  there and its value is not the empty string.
\<close>

definition has_session :: "platform_id \<Rightarrow> env \<Rightarrow> bool" where
  "has_session p e = (case presence_cookie p e of None \<Rightarrow> False | Some v \<Rightarrow> v \<noteq> [])"

text \<open>
  Logout is the internal \<open>LOGOUT\<close> message.  \<open>linked_truthy\<close> holds of a store whose
  account ids, where present, are truthy: the only write of an account id is guarded by
  \<open>data.account_id &&\<close>, so every store the program produces from an empty one is such.
\<close>

fun is_logout :: "event \<Rightarrow> bool" where
  "is_logout (Message m) = (msg_type m = JStr ''LOGOUT'')"
| "is_logout ev = False"

definition no_logout :: "(env \<times> event) list \<Rightarrow> bool" where
  "no_logout hs = list_all (\<lambda>h. \<not> is_logout (snd h)) hs"

definition linked_truthy :: "(string \<rightharpoonup> jsval) \<Rightarrow> bool" where
  "linked_truthy st =
     ((case st ''instagram_account_id'' of None \<Rightarrow> True | Some v \<Rightarrow> truthy v)
      \<and> (case st ''linkedin_account_id'' of None \<Rightarrow> True | Some v \<Rightarrow> truthy v))"

text \<open>
  \<open>written_by_create p e w rs w'\<close>: the store of \<open>w\<close> held no (truthy) id for the platform,
  and among the requests \<open>rs\<close> is one to the platform's create endpoint whose answer has a
  status in 200..299 and carries a truthy \<open>account_id\<close>, which is the id the store of \<open>w'\<close>
  holds.
\<close>

definition written_by_create :: "platform_id \<Rightarrow> env \<Rightarrow> world \<Rightarrow> request list \<Rightarrow> world \<Rightarrow> bool" where
  "written_by_create p e w rs w' =
     (\<not> truthy (field (storage w) (account_id_key p))
      \<and> (\<exists>r st a ds. r \<in> set rs \<and> endpoint r = create_endpoint p
            \<and> fetch e r = HttpResponse st (BodyData a ds) \<and> response_ok st \<and> truthy a
            \<and> storage w' (account_id_key p) = Some a))"

section \<open>Bursts and the timers pending\<close>


definition timers_of :: "platform_id \<Rightarrow> scheduler \<Rightarrow> timer list" where
  "timers_of p s = filter (\<lambda>tm. on_fire tm = debounce_callback p) (timers s)"



definition notifications :: "(nat \<times> change_info) list \<Rightarrow> (nat \<times> sched_event) list" where
  "notifications burst = map (\<lambda>b. (fst b, CookieChanged (snd b))) burst"

definition rearm :: "platform_id \<Rightarrow> scheduler \<Rightarrow> scheduler" where
  "rearm p s =
     s\<lparr>timers := filter (\<lambda>tm. on_fire tm \<noteq> debounce_callback p) (timers s)
                    @ [\<lparr>timer_id = next_id s, on_fire = debounce_callback p,
                         due = clock s + DEBOUNCE_MS\<rparr>],
       next_id := Suc (next_id s),
       pendingSyncs := (case p of
            Instagram \<Rightarrow> (pendingSyncs s)\<lparr>instagram := Some (next_id s)\<rparr>
          | LinkedIn \<Rightarrow> (pendingSyncs s)\<lparr>linkedin := Some (next_id s)\<rparr>)\<rparr>"

section \<open>Example inputs\<close>

text \<open>
  Concrete cookie jars, worlds, messages, requests and bursts, at which the properties
  below are evaluated.
\<close>

definition no_cookies :: cookie_jar where
  "no_cookies url name = None"

definition session_cookies :: cookie_jar where
  "session_cookies url name =
     (if name = ''sessionid'' \<or> name = ''li_at'' then Some ''s3cr3t'' else None)"

definition empty_session_cookies :: cookie_jar where
  "empty_session_cookies url name =
     (if name = ''sessionid'' \<or> name = ''li_at'' then Some [] else None)"

definition answer_with :: "fetch_outcome \<Rightarrow> request \<Rightarrow> fetch_outcome" where
  "answer_with out r = out"

definition example_env :: "cookie_jar \<Rightarrow> fetch_outcome \<Rightarrow> env" where
  "example_env jar out =
     \<lparr>cookies = jar, userAgent = ''Mozilla/5.0'', manifest_version = ''1.0.0'',
      now = ''2024-05-01T10:00:00.000Z'', fetch = answer_with out\<rparr>"

definition connected_status :: sync_status where
  "connected_status =
     \<lparr>syncing = False, lastSync = Some ''2024-04-30T09:00:00.000Z'', error = None,
      status = Some (JStr ''connected'')\<rparr>"

definition example_world :: "(string \<rightharpoonup> jsval) \<Rightarrow> world" where
  "example_world st =
     \<lparr>storage = st, syncStatus = \<lparr>instagram = connected_status, linkedin = connected_status\<rparr>\<rparr>"

definition check_cookies_message :: message where
  "check_cookies_message = \<lparr>msg_type = JStr ''CHECK_COOKIES'', platform = JUndefined, token = JUndefined\<rparr>"

definition logout_message :: message where
  "logout_message = \<lparr>msg_type = JStr ''LOGOUT'', platform = JUndefined, token = JUndefined\<rparr>"

definition manual_sync_message :: "jsval \<Rightarrow> message" where
  "manual_sync_message pl = \<lparr>msg_type = JStr ''MANUAL_SYNC'', platform = pl, token = JUndefined\<rparr>"

definition trigger_sync_message :: "jsval \<Rightarrow> message" where
  "trigger_sync_message pl = \<lparr>msg_type = JStr ''TRIGGER_SYNC'', platform = pl, token = JUndefined\<rparr>"

definition set_token_message :: "jsval \<Rightarrow> message" where
  "set_token_message tk = \<lparr>msg_type = JStr ''SET_AUTH_TOKEN'', platform = JUndefined, token = tk\<rparr>"

definition example_instagram_bundle :: instagram_cookies where
  "example_instagram_bundle =
     \<lparr>user_agent = ''Mozilla/5.0'', sessionid = Some ''s3cr3t'', csrftoken = None,
      ds_user_id = None, mid = None\<rparr>"

definition connect_request :: request where
  "connect_request =
     \<lparr>endpoint = ''https://api.dialogbrain.com/api/channels/instagram/accounts/connect/cookie'',
      http_method = ''POST'', content_type = ''application/json'',
      authorization = ''Bearer tok'', body = InstagramBody example_instagram_bundle\<rparr>"

definition logged_in_world :: world where
  "logged_in_world = example_world [''auth_token'' \<mapsto> JStr ''tok'']"

definition stranger :: sender where
  "stranger = \<lparr>origin = Some ''https://evil.example''\<rparr>"

definition web_app :: sender where
  "web_app = \<lparr>origin = Some ''https://app.dialogbrain.com''\<rparr>"

definition unreadable_answer :: fetch_outcome where
  "unreadable_answer = HttpResponse 500 (BodyUnreadable ''terminated'')"

definition null_body_answer :: fetch_outcome where
  "null_body_answer = HttpResponse 200 BodyNull"

definition linked_storage :: "string \<rightharpoonup> jsval" where
  "linked_storage =
     [''auth_token'' \<mapsto> JStr ''tok'', ''instagram_account_id'' \<mapsto> JStr ''acc-1'',
      ''linkedin_account_id'' \<mapsto> JNum ''42'' True]"

definition other_session_cookies :: cookie_jar where
  "other_session_cookies url name =
     (if name = ''sessionid'' then Some ''another-value''
      else if name = ''li_at'' then Some ''x'' else if name = ''mid'' then Some ''m'' else None)"

definition refresh_request :: request where
  "refresh_request =
     \<lparr>endpoint = ''https://api.dialogbrain.com/api/channels/instagram/accounts/acc-1/sync-cookie'',
      http_method = ''POST'', content_type = ''application/json'',
      authorization = ''Bearer tok'', body = InstagramBody example_instagram_bundle\<rparr>"

definition created_answer :: fetch_outcome where
  "created_answer = HttpResponse 201 (BodyData (JStr ''acc-1'') JUndefined)"

definition example_history :: "(env \<times> event) list" where
  "example_history =
     [(example_env session_cookies (HttpResponse 500 BodyNull), Alarm ''fallbackSync''),
      (example_env session_cookies (NetworkError ''Failed to fetch''),
       MessageExternal web_app (trigger_sync_message (JStr ''all''))),
      (example_env session_cookies (NetworkError ''Failed to fetch''), TimerFired DebouncedInstagram)]"

definition example_linkedin_bundle :: linkedin_cookies where
  "example_linkedin_bundle =
     \<lparr>user_agent = ''Mozilla/5.0'', li_at = Some ''s3cr3t'', li_a = None, jsessionid = None\<rparr>"

definition linkedin_refresh_request :: request where
  "linkedin_refresh_request =
     \<lparr>endpoint = ''https://api.dialogbrain.com/api/channels/linkedin/accounts/42/sync-cookie'',
      http_method = ''POST'', content_type = ''application/json'',
      authorization = ''Bearer tok'', body = LinkedInBody example_linkedin_bundle\<rparr>"

definition create_in_flight :: in_flight where
  "create_in_flight =
     \<lparr>snapshot = storage_get [''auth_token'', ''instagram_account_id''] [''auth_token'' \<mapsto> JStr ''tok''],
      sent = connect_request\<rparr>"

definition refresh_in_flight :: in_flight where
  "refresh_in_flight =
     \<lparr>snapshot = storage_get [''auth_token'', ''instagram_account_id''] linked_storage,
      sent = refresh_request\<rparr>"

definition syncing_status :: sync_status where
  "syncing_status =
     \<lparr>syncing = True, lastSync = Some ''2024-04-30T09:00:00.000Z'', error = None,
      status = Some (JStr ''connected'')\<rparr>"

definition syncing_world :: "(string \<rightharpoonup> jsval) \<Rightarrow> world" where
  "syncing_world st =
     \<lparr>storage = st, syncStatus = \<lparr>instagram = syncing_status, linkedin = connected_status\<rparr>\<rparr>"

definition second_answer :: fetch_outcome where
  "second_answer = HttpResponse 201 (BodyData (JStr ''acc-2'') JUndefined)"

definition second_refresh_request :: request where
  "second_refresh_request =
     \<lparr>endpoint = ''https://api.dialogbrain.com/api/channels/instagram/accounts/acc-2/sync-cookie'',
      http_method = ''POST'', content_type = ''application/json'',
      authorization = ''Bearer tok'', body = InstagramBody example_instagram_bundle\<rparr>"

definition logout_history :: "(env \<times> event) list" where
  "logout_history =
     [(example_env session_cookies null_body_answer, Message logout_message),
      (example_env session_cookies null_body_answer, Message (set_token_message (JStr ''tok'')))]"

definition session_change :: change_info where
  "session_change = \<lparr>cookie_domain = ''.instagram.com'', cookie_name = ''sessionid'', removed = False\<rparr>"

definition csrf_change :: change_info where
  "csrf_change = \<lparr>cookie_domain = ''.instagram.com'', cookie_name = ''csrftoken'', removed = True\<rparr>"

definition example_burst :: "(nat \<times> change_info) list" where
  "example_burst = [(1000, session_change), (1500, csrf_change), (3400, session_change)]"

section \<open>Evaluation and shared lemmas\<close>

lemmas example_defs =
  example_env_def example_world_def logged_in_world_def no_cookies_def session_cookies_def
  empty_session_cookies_def answer_with_def connected_status_def example_instagram_bundle_def
  connect_request_def

lemmas sync_defs =
  syncInstagramCookies_def syncInstagramCookies_begin_def syncInstagramCookies_resume_def
  syncLinkedInCookies_def syncLinkedInCookies_begin_def syncLinkedInCookies_resume_def
  getInstagramCookies_def getLinkedInCookies_def INSTAGRAM_COOKIES_def LINKEDIN_COOKIES_def
  value_or_null_def field_def storage_get_def storage_set_def set_instagram_def set_linkedin_def
  failed_def getApiUrl_def IS_DEV_def PROD_API_URL_def DEV_API_URL_def response_ok_def

lemma field_absent: "st k = None \<Longrightarrow> field st k = JUndefined"
  by (simp add: field_def)

lemma sessionid_get [simp]:
  "sessionid (getInstagramCookies e) = value_or_null (cookies e ''https://www.instagram.com'' ''sessionid'')"
  by (simp add: getInstagramCookies_def INSTAGRAM_COOKIES_def)

lemma li_at_get [simp]:
  "li_at (getLinkedInCookies e) = value_or_null (cookies e ''https://www.linkedin.com'' ''li_at'')"
  by (simp add: getLinkedInCookies_def)

lemma snapshot_field_ig [simp]:
  "field (storage_get [''auth_token'', ''instagram_account_id''] st) ''auth_token'' = field st ''auth_token''"
  "field (storage_get [''auth_token'', ''instagram_account_id''] st) ''instagram_account_id'' = field st ''instagram_account_id''"
  by (simp_all add: field_def storage_get_def)

lemma snapshot_field_li [simp]:
  "field (storage_get [''auth_token'', ''linkedin_account_id''] st) ''auth_token'' = field st ''auth_token''"
  "field (storage_get [''auth_token'', ''linkedin_account_id''] st) ''linkedin_account_id'' = field st ''linkedin_account_id''"
  by (simp_all add: field_def storage_get_def)

lemma sync_no_token:
  "\<not> truthy (field (storage w) ''auth_token'') \<Longrightarrow>
     sync p e w = (set_status p (failed ''Not logged in'') w, [])"
  by (cases p) (simp_all add: syncInstagramCookies_def syncInstagramCookies_begin_def
      syncLinkedInCookies_def syncLinkedInCookies_begin_def Let_def)

lemma sync_no_session:
  "truthy (field (storage w) ''auth_token'') \<Longrightarrow> value_or_null (presence_cookie p e) = None \<Longrightarrow>
     sync p e w = (set_status p (failed (''Not logged in to '' @ platform_label p)) w, [])"
  by (cases p) (simp_all add: syncInstagramCookies_def syncInstagramCookies_begin_def
      syncLinkedInCookies_def syncLinkedInCookies_begin_def Let_def)

lemma sync_sent:
  "snd (sync p e w) = [r] \<Longrightarrow>
     \<exists>w1 pf. sync_begin p e w = (w1, Some pf) \<and> sent pf = r
        \<and> fst (sync p e w) = sync_resume p (now e) pf (fetch e r) w1"
  by (cases p)
     (auto simp: syncInstagramCookies_def syncLinkedInCookies_def split: prod.splits option.splits)

lemma status_set_status [simp]: "status_of p (set_status p s w) = s"
  by (cases p) (simp_all add: set_instagram_def set_linkedin_def)

lemma storage_set_status [simp]: "storage (set_status p s w) = storage w"
  by (cases p) (simp_all add: set_instagram_def set_linkedin_def)

lemma resume_network_error:
  "sync_resume p t pf (NetworkError msg) w = set_status p (failed msg) w"
  by (cases p) (simp_all add: syncInstagramCookies_resume_def syncLinkedInCookies_resume_def)

lemma resume_rejected:
  "\<not> response_ok st \<Longrightarrow> p = LinkedIn \<or> (\<forall>msg. b \<noteq> BodyUnreadable msg) \<Longrightarrow>
     sync_resume p t pf (HttpResponse st b) w = set_status p (failed (''HTTP '' @ show_nat st)) w"
  by (cases p; cases b)
     (simp_all add: syncInstagramCookies_resume_def syncLinkedInCookies_resume_def)

lemma resume_rejected_unreadable:
  "\<not> response_ok st \<Longrightarrow>
     syncInstagramCookies_resume t pf (HttpResponse st (BodyUnreadable msg)) w
       = set_instagram (failed msg) w"
  by (simp add: syncInstagramCookies_resume_def)

lemma value_or_null_None [simp]: "value_or_null None = None"
  by (simp add: value_or_null_def)

lemma failed_fields [simp]:
  "syncing (failed msg) = False" "lastSync (failed msg) = None"
  "error (failed msg) = Some msg" "status (failed msg) = None"
  by (simp_all add: failed_def)

lemma sync_token_absent:
  "storage w ''auth_token'' = None \<Longrightarrow>
     sync p e w = (set_status p (failed ''Not logged in'') w, [])"
  by (rule sync_no_token) (simp add: field_def)

lemma sync_cookie_absent:
  assumes "presence_cookie p e = None"
  shows "\<exists>msg. sync p e w = (set_status p (failed msg) w, [])"
proof (cases "truthy (field (storage w) ''auth_token'')")
  case True
  with assms have "sync p e w = (set_status p (failed (''Not logged in to '' @ platform_label p)) w, [])"
    by (simp add: sync_no_session)
  then show ?thesis by blast
next
  case False
  then show ?thesis using sync_no_token [of w p e] by blast
qed

lemma sync_transport_failure:
  assumes "snd (sync p e w) = [r]" and "fetch e r = NetworkError msg"
  shows "status_of p (fst (sync p e w)) = failed msg"
proof -
  from sync_sent [OF assms(1)] obtain w1 pf where
    "fst (sync p e w) = sync_resume p (now e) pf (fetch e r) w1" by blast
  with assms(2) show ?thesis by (simp add: resume_network_error)
qed

lemma resume_status_cases:
  "(\<exists>msg. status_of p (sync_resume p t pf out w) = failed msg)
   \<or> (\<exists>v. status_of p (sync_resume p t pf out w)
           = \<lparr>syncing = False, lastSync = Some t, error = None, status = Some v\<rparr>)"
  by (cases p)
     (auto simp: syncInstagramCookies_resume_def syncLinkedInCookies_resume_def
        set_instagram_def set_linkedin_def Let_def
        split: fetch_outcome.splits response_body.splits)

lemma sync_status_cases:
  "(\<exists>msg. status_of p (fst (sync p e w)) = failed msg)
   \<or> (\<exists>v. status_of p (fst (sync p e w))
           = \<lparr>syncing = False, lastSync = Some (now e), error = None, status = Some v\<rparr>)"
proof (cases "snd (sync p e w)")
  case Nil
  then have "\<exists>w1. sync_begin p e w = (w1, None) \<and> fst (sync p e w) = w1"
    by (cases p)
       (auto simp: syncInstagramCookies_def syncLinkedInCookies_def split: prod.splits option.splits)
  then obtain w1 where b: "sync_begin p e w = (w1, None)" and f: "fst (sync p e w) = w1" by blast
  from b have "\<exists>msg. w1 = set_status p (failed msg) w"
    by (cases p)
       (auto simp: syncInstagramCookies_begin_def syncLinkedInCookies_begin_def Let_def
          split: if_splits)
  with f show ?thesis by auto
next
  case (Cons r rs)
  then have "\<exists>w1 pf. fst (sync p e w) = sync_resume p (now e) pf (fetch e (sent pf)) w1"
    by (cases p)
       (auto simp: syncInstagramCookies_def syncLinkedInCookies_def split: prod.splits option.splits)
  then show ?thesis using resume_status_cases by metis
qed

lemma example_sync_sends_connect:
  "snd (sync Instagram (example_env session_cookies out) logged_in_world) = [connect_request]"
  by (simp add: example_defs sync_defs Let_def)

section \<open>Gating of a sync\<close>

text \<open>
  Claim C1, as stated, at a stored token that is the empty string: the token is present in
  storage and the Instagram session cookie is absent, yet the status left behind is the one
  of a missing token, \<open>Not logged in\<close>, and not \<open>Not logged in to Instagram\<close>.
\<close>

theorem gating_empty_token_counterexample:
  "storage (example_world [''auth_token'' \<mapsto> JStr '''']) ''auth_token'' \<noteq> None
   \<and> presence_cookie Instagram (example_env no_cookies (NetworkError ''Failed to fetch'')) = None
   \<and> status_of Instagram
        (fst (sync Instagram (example_env no_cookies (NetworkError ''Failed to fetch''))
               (example_world [''auth_token'' \<mapsto> JStr ''''])))
       = failed ''Not logged in''
   \<and> status_of Instagram
        (fst (sync Instagram (example_env no_cookies (NetworkError ''Failed to fetch''))
               (example_world [''auth_token'' \<mapsto> JStr ''''])))
       \<noteq> failed ''Not logged in to Instagram''"
  by (simp add: example_world_def example_env_def no_cookies_def syncInstagramCookies_def
      syncInstagramCookies_begin_def Let_def field_def storage_get_def set_instagram_def failed_def)

text \<open>
  Claim C1, amended.  For every platform: a sync invocation whose stored AuthToken is absent
  or falsy (the program tests \<open>!authToken\<close>, so an empty string counts as no token) sends
  no request and leaves the status \<open>{syncing: false, lastSync: null, error: 'Not logged in'}\<close>
  (the state \<open>Disconnected("not_logged_in_to_extension")\<close>); a sync invocation whose
  AuthToken is truthy while the presence-key cookie (\<open>sessionid\<close>, \<open>li_at\<close>) is absent or
  has an empty value sends no request and leaves the status
  \<open>{syncing: false, lastSync: null, error: 'Not logged in to <Platform>'}\<close>
  (the state \<open>Disconnected("not_logged_in_to_platform")\<close>).
\<close>

theorem sync_gating:
  "(\<not> truthy (field (storage w) ''auth_token'') \<longrightarrow>
      sync p e w = (set_status p (failed ''Not logged in'') w, []))
   \<and> (truthy (field (storage w) ''auth_token'') \<and> value_or_null (presence_cookie p e) = None \<longrightarrow>
      sync p e w = (set_status p (failed (''Not logged in to '' @ platform_label p)) w, []))"
  using sync_no_token sync_no_session by blast

text \<open>Both parts of C1 at concrete inputs: no stored token; a token but no cookies.\<close>

theorem sync_gating_witness:
  "\<not> truthy (field (storage (example_world Map.empty)) ''auth_token'')
   \<and> sync LinkedIn (example_env session_cookies (NetworkError ''Failed to fetch'')) (example_world Map.empty)
       = (set_status LinkedIn (failed ''Not logged in'') (example_world Map.empty), [])
   \<and> truthy (field (storage (example_world [''auth_token'' \<mapsto> JStr ''tok''])) ''auth_token'')
   \<and> value_or_null (presence_cookie Instagram (example_env no_cookies (NetworkError ''Failed to fetch''))) = None
   \<and> sync Instagram (example_env no_cookies (NetworkError ''Failed to fetch''))
         (example_world [''auth_token'' \<mapsto> JStr ''tok''])
       = (set_status Instagram (failed ''Not logged in to Instagram'')
            (example_world [''auth_token'' \<mapsto> JStr ''tok'']), [])"
proof -
  have a: "\<not> truthy (field (storage (example_world Map.empty)) ''auth_token'')"
    by (simp add: example_world_def field_def)
  have b: "truthy (field (storage (example_world [''auth_token'' \<mapsto> JStr ''tok''])) ''auth_token'')"
    by (simp add: example_world_def field_def)
  have c: "value_or_null (presence_cookie Instagram (example_env no_cookies (NetworkError ''Failed to fetch''))) = None"
    by (simp add: example_env_def no_cookies_def value_or_null_def)
  from a b c
    sync_gating [of "example_world Map.empty" LinkedIn
      "example_env session_cookies (NetworkError ''Failed to fetch'')"]
    sync_gating [of "example_world [''auth_token'' \<mapsto> JStr ''tok'']" Instagram
      "example_env no_cookies (NetworkError ''Failed to fetch'')"]
  show ?thesis by simp
qed


section \<open>Rejected responses\<close>

text \<open>
  A response with a status outside 200..299 leaves
  \<open>{syncing: false, lastSync: null, error: 'HTTP <status>'}\<close> on LinkedIn always, and on
  Instagram when the body can be read.
\<close>

lemma rejected_response_readable:
  assumes r: "snd (sync p e w) = [r]" and f: "fetch e r = HttpResponse st b"
    and n: "\<not> response_ok st" and b: "p = LinkedIn \<or> (\<forall>msg. b \<noteq> BodyUnreadable msg)"
  shows "status_of p (fst (sync p e w))
       = \<lparr>syncing = False, lastSync = None, error = Some (''HTTP '' @ show_nat st), status = None\<rparr>"
proof -
  from sync_sent [OF r] obtain w1 pf where
    "fst (sync p e w) = sync_resume p (now e) pf (fetch e r) w1" by blast
  with f n b show ?thesis
    by (simp add: resume_rejected failed_def)
qed

lemma rejected_response_unreadable:
  assumes r: "snd (sync Instagram e w) = [r]"
    and f: "fetch e r = HttpResponse st (BodyUnreadable msg)" and n: "\<not> response_ok st"
  shows "status_of Instagram (fst (sync Instagram e w))
       = \<lparr>syncing = False, lastSync = None, error = Some msg, status = None\<rparr>"
proof -
  from sync_sent [OF r] obtain w1 pf where
    "fst (sync Instagram e w) = sync_resume Instagram (now e) pf (fetch e r) w1" by blast
  with f n show ?thesis
    by (simp add: resume_rejected_unreadable failed_def set_instagram_def)
qed

text \<open>
  Claim C7, at its failing input: the first Instagram sync of a logged-in user, answered
  with status 500 and a body whose read fails with the message \<open>terminated\<close>.  The claim
  says the error records the numeric status.  \<open>syncInstagramCookies\<close> awaits
  \<open>response.text()\<close> before it builds the status; the read rejects, the \<open>catch\<close> runs, and
  the error recorded is \<open>terminated\<close>, not \<open>HTTP 500\<close>.  \<open>syncLinkedInCookies\<close>, which
  does not read the body, records \<open>HTTP 500\<close> on the same answer.
\<close>

theorem instagram_unreadable_rejection:
  "snd (sync Instagram (example_env session_cookies unreadable_answer) logged_in_world)
     = [connect_request]
   \<and> fetch (example_env session_cookies unreadable_answer) connect_request
       = HttpResponse 500 (BodyUnreadable ''terminated'')
   \<and> \<not> response_ok 500
   \<and> status_of Instagram
        (fst (sync Instagram (example_env session_cookies unreadable_answer) logged_in_world))
       = \<lparr>syncing = False, lastSync = None, error = Some ''terminated'', status = None\<rparr>
   \<and> status_of LinkedIn
        (fst (sync LinkedIn (example_env session_cookies unreadable_answer) logged_in_world))
       = \<lparr>syncing = False, lastSync = None, error = Some ''HTTP 500'', status = None\<rparr>"
proof -
  have a: "snd (sync Instagram (example_env session_cookies unreadable_answer) logged_in_world)
     = [connect_request]"
    by (rule example_sync_sends_connect)
  have b: "fetch (example_env session_cookies unreadable_answer) connect_request
       = HttpResponse 500 (BodyUnreadable ''terminated'')"
    by (simp add: example_env_def answer_with_def unreadable_answer_def)
  have c: "\<not> response_ok 500" by (simp add: response_ok_def)
  have d: "show_nat 500 = ''500''" by (simp add: show_nat.simps digit_char_def)
  have i: "status_of Instagram
        (fst (sync Instagram (example_env session_cookies unreadable_answer) logged_in_world))
       = \<lparr>syncing = False, lastSync = None, error = Some ''terminated'', status = None\<rparr>"
    by (rule rejected_response_unreadable [OF a b c])
  have l: "status_of LinkedIn
        (fst (sync LinkedIn (example_env session_cookies unreadable_answer) logged_in_world))
       = \<lparr>syncing = False, lastSync = None, error = Some ''HTTP 500'', status = None\<rparr>"
    by (simp add: example_defs sync_defs Let_def unreadable_answer_def d)
  from a b c i l show ?thesis by blast
qed

section \<open>Failures erase the previous status\<close>

text \<open>
  Claim C9.  Every sync invocation that ends in a failure (the AuthToken is absent, the
  presence-key cookie is absent, the \<open>fetch\<close> throws, or, generally, the status left
  behind carries an error) replaces the platform's whole status object by one with
  \<open>syncing = false\<close>, \<open>lastSync\<close> absent and no \<open>status\<close> field, whatever the status
  recorded before.
\<close>

theorem failed_sync_erases_history:
  "(storage w ''auth_token'' = None
      \<or> presence_cookie p e = None
      \<or> (\<exists>r msg. snd (sync p e w) = [r] \<and> fetch e r = NetworkError msg)
      \<or> error (status_of p (fst (sync p e w))) \<noteq> None)
   \<longrightarrow> syncing (status_of p (fst (sync p e w))) = False
       \<and> lastSync (status_of p (fst (sync p e w))) = None
       \<and> status (status_of p (fst (sync p e w))) = None
       \<and> error (status_of p (fst (sync p e w))) \<noteq> None"
proof
  assume h: "storage w ''auth_token'' = None
      \<or> presence_cookie p e = None
      \<or> (\<exists>r msg. snd (sync p e w) = [r] \<and> fetch e r = NetworkError msg)
      \<or> error (status_of p (fst (sync p e w))) \<noteq> None"
  have "\<exists>msg. status_of p (fst (sync p e w)) = failed msg"
  proof -
    consider (tok) "storage w ''auth_token'' = None"
      | (cookie) "presence_cookie p e = None"
      | (net) r msg where "snd (sync p e w) = [r]" "fetch e r = NetworkError msg"
      | (err) "error (status_of p (fst (sync p e w))) \<noteq> None"
      using h by (elim disjE exE conjE) blast+
    then show ?thesis
    proof cases
      case tok
      then have "status_of p (fst (sync p e w)) = failed ''Not logged in''"
        by (simp add: sync_token_absent)
      then show ?thesis by blast
    next
      case cookie
      then obtain msg where "sync p e w = (set_status p (failed msg) w, [])"
        using sync_cookie_absent by blast
      then have "status_of p (fst (sync p e w)) = failed msg" by simp
      then show ?thesis by blast
    next
      case net
      then show ?thesis using sync_transport_failure by blast
    next
      case err
      then show ?thesis using sync_status_cases [of p e w] by auto
    qed
  qed
  then obtain msg where "status_of p (fst (sync p e w)) = failed msg" ..
  then show "syncing (status_of p (fst (sync p e w))) = False
       \<and> lastSync (status_of p (fst (sync p e w))) = None
       \<and> status (status_of p (fst (sync p e w))) = None
       \<and> error (status_of p (fst (sync p e w))) \<noteq> None"
    by simp
qed

text \<open>
  C9 on the three named paths, each starting from a status that records an earlier
  successful sync.
\<close>

theorem failed_sync_erases_history_witness:
  "storage (example_world Map.empty) ''auth_token'' = None
   \<and> lastSync (status_of Instagram (example_world Map.empty)) = Some ''2024-04-30T09:00:00.000Z''
   \<and> lastSync (status_of Instagram
        (fst (sync Instagram (example_env session_cookies (NetworkError ''Failed to fetch''))
               (example_world Map.empty)))) = None
   \<and> presence_cookie LinkedIn (example_env no_cookies (NetworkError ''Failed to fetch'')) = None
   \<and> status (status_of LinkedIn logged_in_world) = Some (JStr ''connected'')
   \<and> status (status_of LinkedIn
        (fst (sync LinkedIn (example_env no_cookies (NetworkError ''Failed to fetch''))
               logged_in_world))) = None
   \<and> snd (sync Instagram (example_env session_cookies (NetworkError ''Failed to fetch''))
             logged_in_world) = [connect_request]
   \<and> fetch (example_env session_cookies (NetworkError ''Failed to fetch'')) connect_request
       = NetworkError ''Failed to fetch''
   \<and> lastSync (status_of Instagram
        (fst (sync Instagram (example_env session_cookies (NetworkError ''Failed to fetch''))
               logged_in_world))) = None
   \<and> status (status_of Instagram
        (fst (sync Instagram (example_env session_cookies (NetworkError ''Failed to fetch''))
               logged_in_world))) = None"
proof -
  have a: "storage (example_world Map.empty) ''auth_token'' = None"
    by (simp add: example_world_def)
  have a': "lastSync (status_of Instagram (example_world Map.empty)) = Some ''2024-04-30T09:00:00.000Z''"
    by (simp add: example_world_def connected_status_def)
  have b: "presence_cookie LinkedIn (example_env no_cookies (NetworkError ''Failed to fetch'')) = None"
    by (simp add: example_env_def no_cookies_def)
  have b': "status (status_of LinkedIn logged_in_world) = Some (JStr ''connected'')"
    by (simp add: logged_in_world_def example_world_def connected_status_def)
  have c: "snd (sync Instagram (example_env session_cookies (NetworkError ''Failed to fetch''))
             logged_in_world) = [connect_request]"
    by (rule example_sync_sends_connect)
  have d: "fetch (example_env session_cookies (NetworkError ''Failed to fetch'')) connect_request
       = NetworkError ''Failed to fetch''"
    by (simp add: example_env_def answer_with_def)
  from a failed_sync_erases_history
      [of "example_world Map.empty" Instagram
          "example_env session_cookies (NetworkError ''Failed to fetch'')"]
  have 1: "lastSync (status_of Instagram
        (fst (sync Instagram (example_env session_cookies (NetworkError ''Failed to fetch''))
               (example_world Map.empty)))) = None"
    by blast
  from b failed_sync_erases_history
      [of logged_in_world LinkedIn "example_env no_cookies (NetworkError ''Failed to fetch'')"]
  have 2: "status (status_of LinkedIn
        (fst (sync LinkedIn (example_env no_cookies (NetworkError ''Failed to fetch''))
               logged_in_world))) = None"
    by blast
  from c d failed_sync_erases_history
      [of logged_in_world Instagram "example_env session_cookies (NetworkError ''Failed to fetch'')"]
  have 3: "lastSync (status_of Instagram
        (fst (sync Instagram (example_env session_cookies (NetworkError ''Failed to fetch''))
               logged_in_world))) = None
     \<and> status (status_of Instagram
        (fst (sync Instagram (example_env session_cookies (NetworkError ''Failed to fetch''))
               logged_in_world))) = None"
    by blast
  from a a' b b' c d 1 2 3 show ?thesis by blast
qed


section \<open>Manual sync for an unknown platform\<close>

text \<open>
  Claim C10.  For every internal \<open>MANUAL_SYNC\<close> message whose \<open>platform\<close> is neither
  \<open>'instagram'\<close> nor \<open>'linkedin'\<close>: no sync runs (the world is unchanged and no request is
  sent), \<open>sendResponse\<close> is never called, and the listener returns \<open>true\<close>, which keeps
  the reply channel open.
\<close>

theorem manual_sync_unknown_platform:
  "msg_type m = JStr ''MANUAL_SYNC'' \<and> platform m \<noteq> JStr ''instagram''
     \<and> platform m \<noteq> JStr ''linkedin'' \<longrightarrow>
   onMessage e m w = \<lparr>after = w, reply = None, returned_true = True, requests = []\<rparr>"
  by (simp add: onMessage_def)

text \<open>C10 at the platform \<open>'twitter'\<close>.\<close>

theorem manual_sync_unknown_platform_witness:
  "msg_type (manual_sync_message (JStr ''twitter'')) = JStr ''MANUAL_SYNC''
   \<and> platform (manual_sync_message (JStr ''twitter'')) \<noteq> JStr ''instagram''
   \<and> platform (manual_sync_message (JStr ''twitter'')) \<noteq> JStr ''linkedin''
   \<and> onMessage (example_env session_cookies (HttpResponse 200 (BodyData (JStr ''acc-1'') JUndefined)))
        (manual_sync_message (JStr ''twitter'')) (example_world [''auth_token'' \<mapsto> JStr ''tok''])
       = \<lparr>after = example_world [''auth_token'' \<mapsto> JStr ''tok''], reply = None,
          returned_true = True, requests = []\<rparr>"
  using manual_sync_unknown_platform
    [of "manual_sync_message (JStr ''twitter'')"
        "example_env session_cookies (HttpResponse 200 (BodyData (JStr ''acc-1'') JUndefined))"
        "example_world [''auth_token'' \<mapsto> JStr ''tok'']"]
  by (simp add: manual_sync_message_def)

section \<open>The origin allow-list\<close>

lemma origin_allowed_iff:
  "origin_allowed s =
     (\<exists>str. origin s = Some str
        \<and> (prefix ''https://dialogbrain.com'' str \<or> prefix ''https://app.dialogbrain.com'' str
             \<or> prefix ''http://localhost:3000'' str))"
  by (cases "origin s") (auto simp: origin_allowed_def allowedOrigins_def)

text \<open>
  Claim C5.  The allow-list test is a prefix match of the sender's origin against
  \<open>https://dialogbrain.com\<close>, \<open>https://app.dialogbrain.com\<close> and
  \<open>http://localhost:3000\<close>.  For every external message whose sender fails it, whatever
  the message's type: the reply is \<open>{error: 'Unauthorized origin'}\<close>, the listener returns
  at once, the world (storage and both statuses) is unchanged and no request is sent.
\<close>

theorem unauthorized_origin_rejected:
  "(origin_allowed s
      = (\<exists>str. origin s = Some str
           \<and> (prefix ''https://dialogbrain.com'' str \<or> prefix ''https://app.dialogbrain.com'' str
                \<or> prefix ''http://localhost:3000'' str)))
   \<and> (\<not> origin_allowed s \<longrightarrow>
        onMessageExternal e s m w
          = \<lparr>after = w, reply = Some (ErrorReply ''Unauthorized origin''),
             returned_true = False, requests = []\<rparr>)"
  by (simp add: origin_allowed_iff onMessageExternal_def)

text \<open>C5 at a foreign origin, for a \<open>TRIGGER_SYNC\<close> and for a \<open>SET_AUTH_TOKEN\<close> message.\<close>

theorem unauthorized_origin_rejected_witness:
  "\<not> origin_allowed stranger
   \<and> onMessageExternal (example_env session_cookies (HttpResponse 200 (BodyData (JStr ''acc-1'') JUndefined)))
        stranger (trigger_sync_message (JStr ''all'')) logged_in_world
       = \<lparr>after = logged_in_world, reply = Some (ErrorReply ''Unauthorized origin''),
          returned_true = False, requests = []\<rparr>
   \<and> onMessageExternal (example_env session_cookies (HttpResponse 200 (BodyData (JStr ''acc-1'') JUndefined)))
        stranger (set_token_message (JStr ''stolen'')) logged_in_world
       = \<lparr>after = logged_in_world, reply = Some (ErrorReply ''Unauthorized origin''),
          returned_true = False, requests = []\<rparr>"
proof -
  have a: "\<not> origin_allowed stranger"
    by (simp add: origin_allowed_def allowedOrigins_def stranger_def)
  from a
    unauthorized_origin_rejected [of stranger
      "example_env session_cookies (HttpResponse 200 (BodyData (JStr ''acc-1'') JUndefined))"
      "trigger_sync_message (JStr ''all'')" logged_in_world]
    unauthorized_origin_rejected [of stranger
      "example_env session_cookies (HttpResponse 200 (BodyData (JStr ''acc-1'') JUndefined))"
      "set_token_message (JStr ''stolen'')" logged_in_world]
  show ?thesis by simp
qed

section \<open>Logout\<close>

lemma storage_remove_idem: "storage_remove ks (storage_remove ks st) = storage_remove ks st"
  by (rule ext) (simp add: storage_remove_def)

lemma storage_remove_absent:
  "\<forall>k \<in> set ks. st k = None \<Longrightarrow> storage_remove ks st = st"
  by (rule ext) (simp add: storage_remove_def)

lemma logout_handled:
  "msg_type m = JStr ''LOGOUT'' \<Longrightarrow>
     onMessage e m w =
       \<lparr>after = w\<lparr>storage := storage_remove
                         [''auth_token'', ''instagram_account_id'', ''linkedin_account_id'']
                         (storage w),
                     syncStatus := logged_out_status\<rparr>,
         reply = Some (SuccessReply True), returned_true = True, requests = []\<rparr>"
  by (simp add: onMessage_def)

text \<open>
  Claim C6.  A \<open>LOGOUT\<close> message removes \<open>auth_token\<close> and both account ids from
  storage, sets both statuses to \<open>{syncing: false, lastSync: null, error: 'Not logged in'}\<close>
  (the state \<open>Disconnected("not_logged_in")\<close>) and replies \<open>{success: true}\<close>.  A second \<open>LOGOUT\<close> right after the first ends in the
  same world with the same reply (so logging out when already logged out succeeds and
  changes nothing).
\<close>

theorem logout_complete_and_idempotent:
  "msg_type m = JStr ''LOGOUT'' \<and> msg_type m' = JStr ''LOGOUT'' \<longrightarrow>
     storage (after (onMessage e m w)) ''auth_token'' = None
     \<and> storage (after (onMessage e m w)) ''instagram_account_id'' = None
     \<and> storage (after (onMessage e m w)) ''linkedin_account_id'' = None
     \<and> instagram (syncStatus (after (onMessage e m w)))
         = \<lparr>syncing = False, lastSync = None, error = Some ''Not logged in'', status = None\<rparr>
     \<and> linkedin (syncStatus (after (onMessage e m w)))
         = \<lparr>syncing = False, lastSync = None, error = Some ''Not logged in'', status = None\<rparr>
     \<and> reply (onMessage e m w) = Some (SuccessReply True)
     \<and> requests (onMessage e m w) = []
     \<and> onMessage e' m' (after (onMessage e m w)) = onMessage e m w"
proof (intro impI, elim conjE)
  assume m: "msg_type m = JStr ''LOGOUT''" and m': "msg_type m' = JStr ''LOGOUT''"
  have fields: "storage (after (onMessage e m w)) ''auth_token'' = None
     \<and> storage (after (onMessage e m w)) ''instagram_account_id'' = None
     \<and> storage (after (onMessage e m w)) ''linkedin_account_id'' = None
     \<and> instagram (syncStatus (after (onMessage e m w)))
         = \<lparr>syncing = False, lastSync = None, error = Some ''Not logged in'', status = None\<rparr>
     \<and> linkedin (syncStatus (after (onMessage e m w)))
         = \<lparr>syncing = False, lastSync = None, error = Some ''Not logged in'', status = None\<rparr>
     \<and> reply (onMessage e m w) = Some (SuccessReply True)
     \<and> requests (onMessage e m w) = []"
    by (simp add: logout_handled [OF m] storage_remove_def logged_out_status_def)
  have again: "onMessage e' m' (after (onMessage e m w)) = onMessage e m w"
    by (simp add: logout_handled [OF m] logout_handled [OF m'] storage_remove_idem)
  from fields again
  show "storage (after (onMessage e m w)) ''auth_token'' = None
     \<and> storage (after (onMessage e m w)) ''instagram_account_id'' = None
     \<and> storage (after (onMessage e m w)) ''linkedin_account_id'' = None
     \<and> instagram (syncStatus (after (onMessage e m w)))
         = \<lparr>syncing = False, lastSync = None, error = Some ''Not logged in'', status = None\<rparr>
     \<and> linkedin (syncStatus (after (onMessage e m w)))
         = \<lparr>syncing = False, lastSync = None, error = Some ''Not logged in'', status = None\<rparr>
     \<and> reply (onMessage e m w) = Some (SuccessReply True)
     \<and> requests (onMessage e m w) = []
     \<and> onMessage e' m' (after (onMessage e m w)) = onMessage e m w"
    by blast
qed

text \<open>C6 from a world linked on both platforms.\<close>

theorem logout_complete_and_idempotent_witness:
  "msg_type logout_message = JStr ''LOGOUT''
   \<and> storage (example_world linked_storage) ''instagram_account_id'' = Some (JStr ''acc-1'')
   \<and> storage (after (onMessage (example_env session_cookies null_body_answer) logout_message
                       (example_world linked_storage))) ''instagram_account_id'' = None
   \<and> storage (after (onMessage (example_env session_cookies null_body_answer) logout_message
                       (example_world linked_storage))) ''auth_token'' = None
   \<and> onMessage (example_env no_cookies null_body_answer) logout_message
        (after (onMessage (example_env session_cookies null_body_answer) logout_message
                  (example_world linked_storage)))
       = onMessage (example_env session_cookies null_body_answer) logout_message
           (example_world linked_storage)"
proof -
  have a: "msg_type logout_message = JStr ''LOGOUT''" by (simp add: logout_message_def)
  have b: "storage (example_world linked_storage) ''instagram_account_id'' = Some (JStr ''acc-1'')"
    by (simp add: example_world_def linked_storage_def)
  from a b logout_complete_and_idempotent
      [of logout_message logout_message "example_env session_cookies null_body_answer"
          "example_world linked_storage" "example_env no_cookies null_body_answer"]
  show ?thesis by blast
qed


section \<open>Checking for sessions\<close>

lemma has_session_ig:
  "(value_or_null (cookies e ''https://www.instagram.com'' ''sessionid'') = None)
     = (\<not> has_session Instagram e)"
  by (simp add: has_session_def value_or_null_def split: option.splits)

lemma has_session_li:
  "(value_or_null (cookies e ''https://www.linkedin.com'' ''li_at'') = None)
     = (\<not> has_session LinkedIn e)"
  by (simp add: has_session_def value_or_null_def split: option.splits)

lemma check_cookies_internal:
  "msg_type m = JStr ''CHECK_COOKIES'' \<Longrightarrow>
     onMessage e m w =
       \<lparr>after = w,
        reply = Some (CookiesReply \<lparr>instagram = has_session Instagram e,
                                    linkedin = has_session LinkedIn e\<rparr>),
        returned_true = True, requests = []\<rparr>"
  by (simp add: onMessage_def Let_def has_session_ig has_session_li del: not_None_eq)

lemma check_cookies_external:
  "msg_type m = JStr ''CHECK_COOKIES'' \<Longrightarrow> origin_allowed s \<Longrightarrow>
     onMessageExternal e s m w =
       \<lparr>after = w,
        reply = Some (ExternalCookiesReply True \<lparr>instagram = has_session Instagram e,
                                                 linkedin = has_session LinkedIn e\<rparr>),
        returned_true = True, requests = []\<rparr>"
  by (simp add: onMessageExternal_def Let_def has_session_ig has_session_li del: not_None_eq)

text \<open>
  Claim C8, as stated, at a cookie jar whose \<open>sessionid\<close> and \<open>li_at\<close> cookies exist with
  the empty string as value: the presence-key cookies are present, as they are in a jar
  that holds real values, yet \<open>hasSession\<close> is \<open>false\<close> for the one and \<open>true\<close> for the
  other.
\<close>

theorem check_cookies_empty_value_counterexample:
  "(presence_cookie Instagram (example_env empty_session_cookies null_body_answer) \<noteq> None)
     = (presence_cookie Instagram (example_env session_cookies null_body_answer) \<noteq> None)
   \<and> (presence_cookie LinkedIn (example_env empty_session_cookies null_body_answer) \<noteq> None)
     = (presence_cookie LinkedIn (example_env session_cookies null_body_answer) \<noteq> None)
   \<and> presence_cookie Instagram (example_env empty_session_cookies null_body_answer) \<noteq> None
   \<and> reply (onMessage (example_env empty_session_cookies null_body_answer) check_cookies_message
              logged_in_world)
       = Some (CookiesReply \<lparr>instagram = False, linkedin = False\<rparr>)
   \<and> reply (onMessage (example_env session_cookies null_body_answer) check_cookies_message
              logged_in_world)
       = Some (CookiesReply \<lparr>instagram = True, linkedin = True\<rparr>)"
  by (simp add: example_defs null_body_answer_def check_cookies_message_def onMessage_def
      getInstagramCookies_def getLinkedInCookies_def INSTAGRAM_COOKIES_def value_or_null_def Let_def)

text \<open>
  Claim C8, amended.  For every cookie jar, the reply to \<open>CHECK_COOKIES\<close> (on the internal
  channel, and on the external one for an allowed origin) holds booleans only:
  \<open>hasSession\<close> per platform, true exactly when the platform's presence-key cookie
  (\<open>sessionid\<close>, \<open>li_at\<close>) is present with a non-empty value.  No cookie value is in the
  reply: two cookie jars that agree, per platform, on whether the presence-key cookie is
  present and non-empty get identical replies.
\<close>

theorem check_cookies_reply:
  "msg_type m = JStr ''CHECK_COOKIES'' \<longrightarrow>
     reply (onMessage e m w)
       = Some (CookiesReply \<lparr>instagram = has_session Instagram e, linkedin = has_session LinkedIn e\<rparr>)
     \<and> (origin_allowed s \<longrightarrow>
          reply (onMessageExternal e s m w)
            = Some (ExternalCookiesReply True
                      \<lparr>instagram = has_session Instagram e, linkedin = has_session LinkedIn e\<rparr>))
     \<and> (has_session Instagram e = has_session Instagram e'
          \<and> has_session LinkedIn e = has_session LinkedIn e' \<longrightarrow>
          reply (onMessage e m w) = reply (onMessage e' m w')
          \<and> reply (onMessageExternal e s m w) = reply (onMessageExternal e' s m w'))"
proof
  assume m: "msg_type m = JStr ''CHECK_COOKIES''"
  have ext: "reply (onMessageExternal e s m w) = reply (onMessageExternal e' s m w')"
    if "has_session Instagram e = has_session Instagram e'"
      and "has_session LinkedIn e = has_session LinkedIn e'"
  proof (cases "origin_allowed s")
    case True
    with m that show ?thesis by (simp add: check_cookies_external)
  next
    case False
    then show ?thesis by (simp add: onMessageExternal_def)
  qed
  from m ext
  show "reply (onMessage e m w)
       = Some (CookiesReply \<lparr>instagram = has_session Instagram e, linkedin = has_session LinkedIn e\<rparr>)
     \<and> (origin_allowed s \<longrightarrow>
          reply (onMessageExternal e s m w)
            = Some (ExternalCookiesReply True
                      \<lparr>instagram = has_session Instagram e, linkedin = has_session LinkedIn e\<rparr>))
     \<and> (has_session Instagram e = has_session Instagram e'
          \<and> has_session LinkedIn e = has_session LinkedIn e' \<longrightarrow>
          reply (onMessage e m w) = reply (onMessage e' m w')
          \<and> reply (onMessageExternal e s m w) = reply (onMessageExternal e' s m w'))"
    by (simp add: check_cookies_internal check_cookies_external)
qed

text \<open>C8 at two jars that hold different values for the same cookies.\<close>

theorem check_cookies_reply_witness:
  "msg_type check_cookies_message = JStr ''CHECK_COOKIES''
   \<and> origin_allowed web_app
   \<and> has_session Instagram (example_env session_cookies null_body_answer)
   \<and> has_session Instagram (example_env other_session_cookies null_body_answer)
   \<and> has_session LinkedIn (example_env session_cookies null_body_answer)
   \<and> has_session LinkedIn (example_env other_session_cookies null_body_answer)
   \<and> cookies (example_env session_cookies null_body_answer) ''https://www.instagram.com'' ''sessionid''
       \<noteq> cookies (example_env other_session_cookies null_body_answer) ''https://www.instagram.com'' ''sessionid''
   \<and> reply (onMessage (example_env session_cookies null_body_answer) check_cookies_message logged_in_world)
       = Some (CookiesReply \<lparr>instagram = True, linkedin = True\<rparr>)
   \<and> reply (onMessageExternal (example_env session_cookies null_body_answer) web_app
               check_cookies_message logged_in_world)
       = Some (ExternalCookiesReply True \<lparr>instagram = True, linkedin = True\<rparr>)
   \<and> reply (onMessage (example_env session_cookies null_body_answer) check_cookies_message logged_in_world)
       = reply (onMessage (example_env other_session_cookies null_body_answer) check_cookies_message
                  (example_world Map.empty))
   \<and> reply (onMessageExternal (example_env session_cookies null_body_answer) web_app
               check_cookies_message logged_in_world)
       = reply (onMessageExternal (example_env other_session_cookies null_body_answer) web_app
                  check_cookies_message (example_world Map.empty))"
proof -
  have a: "msg_type check_cookies_message = JStr ''CHECK_COOKIES''"
    by (simp add: check_cookies_message_def)
  have b: "origin_allowed web_app"
    by (simp add: origin_allowed_def allowedOrigins_def web_app_def)
  have c: "has_session Instagram (example_env session_cookies null_body_answer)"
    "has_session Instagram (example_env other_session_cookies null_body_answer)"
    "has_session LinkedIn (example_env session_cookies null_body_answer)"
    "has_session LinkedIn (example_env other_session_cookies null_body_answer)"
    by (simp_all add: has_session_def example_env_def session_cookies_def other_session_cookies_def)
  have d: "cookies (example_env session_cookies null_body_answer) ''https://www.instagram.com'' ''sessionid''
       \<noteq> cookies (example_env other_session_cookies null_body_answer) ''https://www.instagram.com'' ''sessionid''"
    by (simp add: example_env_def session_cookies_def other_session_cookies_def)
  from a b c d check_cookies_reply
      [of check_cookies_message "example_env session_cookies null_body_answer" logged_in_world
          web_app "example_env other_session_cookies null_body_answer" "example_world Map.empty"]
  show ?thesis by auto
qed

section \<open>What a sync does to storage\<close>

lemma begin_storage: "sync_begin p e w = (w1, x) \<Longrightarrow> storage w1 = storage w"
  by (cases p)
     (auto simp: syncInstagramCookies_begin_def syncLinkedInCookies_begin_def Let_def
        set_instagram_def set_linkedin_def split: if_splits)

lemma begin_in_flight:
  "sync_begin p e w = (w1, Some pf) \<Longrightarrow>
     field (snapshot pf) (account_id_key p) = field (storage w) (account_id_key p)
     \<and> endpoint (sent pf)
         = (if truthy (field (storage w) (account_id_key p))
            then refresh_endpoint p (field (storage w) (account_id_key p))
            else create_endpoint p)"
  by (cases p)
     (auto simp: syncInstagramCookies_begin_def syncLinkedInCookies_begin_def Let_def
        refresh_endpoint_def create_endpoint_def getApiUrl_def IS_DEV_def PROD_API_URL_def
        split: if_splits)

lemma truthy_not_undefined: "truthy a \<Longrightarrow> a \<noteq> JUndefined"
  by auto

lemma resume_storage:
  "storage (sync_resume p t pf out w) =
     (case out of
        NetworkError msg \<Rightarrow> storage w
      | HttpResponse st b \<Rightarrow>
          (case b of
             BodyData a ds \<Rightarrow>
               if response_ok st \<and> truthy a \<and> \<not> truthy (field (snapshot pf) (account_id_key p))
               then (storage w)(account_id_key p \<mapsto> a) else storage w
           | _ \<Rightarrow> storage w))"
  by (cases p)
     (auto simp: syncInstagramCookies_resume_def syncLinkedInCookies_resume_def Let_def
        set_instagram_def set_linkedin_def storage_set_def
        split: fetch_outcome.splits response_body.splits)

lemma sync_split:
  "(\<exists>w1. sync_begin p e w = (w1, None) \<and> sync p e w = (w1, []))
   \<or> (\<exists>w1 pf. sync_begin p e w = (w1, Some pf)
         \<and> sync p e w = (sync_resume p (now e) pf (fetch e (sent pf)) w1, [sent pf]))"
  by (cases p)
     (auto simp: syncInstagramCookies_def syncLinkedInCookies_def split: prod.splits option.splits)


lemma field_Some [simp]: "st k = Some v \<Longrightarrow> field st k = v"
  by (simp add: field_def)

lemma field_None [simp]: "st k = None \<Longrightarrow> field st k = JUndefined"
  by (simp add: field_def)

lemma account_id_key_cases:
  "account_id_key p = ''instagram_account_id'' \<or> account_id_key p = ''linkedin_account_id''"
  by (cases p) simp_all

lemma account_id_key_not_token [simp]: "account_id_key p \<noteq> ''auth_token''"
  by (cases p) simp_all

lemma token_not_account_id_key [simp]: "''auth_token'' \<noteq> account_id_key p"
  by (cases p) simp_all

lemma account_id_key_inj: "(account_id_key p = account_id_key q) = (p = q)"
  by (cases p; cases q) simp_all

text \<open>What one whole sync does to storage.\<close>

lemma sync_storage:
  "storage (fst (sync p e w)) = storage w
   \<or> (\<exists>r st a ds. snd (sync p e w) = [r] \<and> fetch e r = HttpResponse st (BodyData a ds)
         \<and> response_ok st \<and> truthy a \<and> \<not> truthy (field (storage w) (account_id_key p))
         \<and> storage (fst (sync p e w)) = (storage w)(account_id_key p \<mapsto> a))"
proof -
  from sync_split [of p e w] show ?thesis
  proof (elim disjE exE conjE)
    fix w1 assume "sync_begin p e w = (w1, None)" "sync p e w = (w1, [])"
    then show ?thesis by (simp add: begin_storage)
  next
    fix w1 pf
    assume b: "sync_begin p e w = (w1, Some pf)"
      and s: "sync p e w = (sync_resume p (now e) pf (fetch e (sent pf)) w1, [sent pf])"
    from b have w1: "storage w1 = storage w" by (rule begin_storage)
    from b have snap: "field (snapshot pf) (account_id_key p) = field (storage w) (account_id_key p)"
      by (simp add: begin_in_flight)
    show ?thesis
    proof (cases "fetch e (sent pf)")
      case (NetworkError msg)
      with s w1 show ?thesis by (simp add: resume_storage)
    next
      case (HttpResponse st b')
      show ?thesis
      proof (cases b')
        case (BodyData a ds)
        show ?thesis
        proof (cases "response_ok st \<and> truthy a \<and> \<not> truthy (field (storage w) (account_id_key p))")
          case True
          with s w1 snap HttpResponse BodyData show ?thesis
            by (simp add: resume_storage)
        next
          case False
          with s w1 snap HttpResponse BodyData have "storage (fst (sync p e w)) = storage w"
            by (auto simp add: resume_storage)
          then show ?thesis ..
        qed
      qed (use s w1 HttpResponse in \<open>simp_all add: resume_storage\<close>)
    qed
  qed
qed

lemma sync_preserves_link:
  assumes "storage w (account_id_key p) = Some v" and "truthy v"
  shows "storage (fst (sync q e w)) (account_id_key p) = Some v"
proof -
  from sync_storage [of q e w] show ?thesis
  proof (elim disjE exE conjE)
    assume "storage (fst (sync q e w)) = storage w"
    with assms show ?thesis by simp
  next
    fix r st a ds
    assume n: "\<not> truthy (field (storage w) (account_id_key q))"
      and s: "storage (fst (sync q e w)) = (storage w)(account_id_key q \<mapsto> a)"
    from n assms have "q \<noteq> p" by auto
    then have "account_id_key q \<noteq> account_id_key p" by (simp add: account_id_key_inj)
    with s assms show ?thesis by simp
  qed
qed

lemma sync_preserves_token:
  "storage (fst (sync q e w)) ''auth_token'' = storage w ''auth_token''"
  using sync_storage [of q e w] by auto

lemma sync_never_removes:
  "storage (fst (sync q e w)) k = None \<Longrightarrow> storage w k = None"
  using sync_storage [of q e w] by (auto split: if_splits)

lemma sync_written_truthy:
  assumes "storage w (account_id_key p) = None"
    and "storage (fst (sync p e w)) (account_id_key p) = Some v"
  shows "truthy v"
  using sync_storage [of p e w] assms by auto

lemma both_syncs_preserve_link:
  assumes "storage w (account_id_key p) = Some v" and "truthy v"
  shows "storage (fst (syncLinkedInCookies e (fst (syncInstagramCookies e w)))) (account_id_key p) = Some v"
  using sync_preserves_link [of "fst (sync Instagram e w)" p v LinkedIn e]
    sync_preserves_link [OF assms, of Instagram e]
    assms(2) by simp

lemma storage_set_other: "k \<noteq> k' \<Longrightarrow> storage_set k' v st k = st k"
  by (simp add: storage_set_def)

lemma dispatch_preserves_link:
  assumes l: "storage w (account_id_key p) = Some v" and t: "truthy v" and n: "\<not> is_logout ev"
  shows "storage (fst (dispatch e ev w)) (account_id_key p) = Some v"
proof (cases ev)
  case (Alarm name)
  with both_syncs_preserve_link [OF l t, of e] l show ?thesis
    by (simp add: dispatch_def onAlarm_def split_def)
next
  case (Message m)
  with n have nl: "msg_type m \<noteq> JStr ''LOGOUT''" by simp
  from sync_preserves_link [OF l t, of Instagram e] sync_preserves_link [OF l t, of LinkedIn e]
    l nl Message
  show ?thesis
    by (simp add: dispatch_def onMessage_def Let_def storage_set_other split_def)
next
  case (MessageExternal s m)
  have trig: "storage (fst (syncLinkedInCookies e (fst (syncInstagramCookies e w)))) (account_id_key p) = Some v"
    by (rule both_syncs_preserve_link [OF l t])
  from sync_preserves_link [OF l t, of Instagram e] sync_preserves_link [OF l t, of LinkedIn e]
    trig l MessageExternal
  show ?thesis
    by (simp add: dispatch_def onMessageExternal_def Let_def storage_set_other split_def)
next
  case (TimerFired cb)
  from sync_preserves_link [OF l t, of Instagram e] sync_preserves_link [OF l t, of LinkedIn e]
    both_syncs_preserve_link [OF l t, of e] TimerFired
  show ?thesis
    by (cases cb) (simp_all add: dispatch_def run_callback_def split_def)
qed

lemma run_events_preserves_link:
  "storage w (account_id_key p) = Some v \<Longrightarrow> truthy v \<Longrightarrow> no_logout hs \<Longrightarrow>
     storage (run_events hs w) (account_id_key p) = Some v"
proof (induction hs arbitrary: w)
  case Nil
  then show ?case by simp
next
  case (Cons h hs)
  obtain e ev where h: "h = (e, ev)" by (cases h)
  from Cons.prems(3) h have n: "\<not> is_logout ev" and r: "no_logout hs"
    by (simp_all add: no_logout_def)
  from dispatch_preserves_link [OF Cons.prems(1) Cons.prems(2) n]
  have "storage (fst (dispatch e ev w)) (account_id_key p) = Some v" .
  from Cons.IH [OF this Cons.prems(2) r] h show ?case by simp
qed


lemma sync_endpoint:
  assumes "snd (sync p e w) = [r]"
  shows "endpoint r = (if truthy (field (storage w) (account_id_key p))
                        then refresh_endpoint p (field (storage w) (account_id_key p))
                        else create_endpoint p)"
proof -
  from sync_sent [OF assms] obtain w1 pf where "sync_begin p e w = (w1, Some pf)" "sent pf = r"
    by blast
  then show ?thesis using begin_in_flight [of p e w w1 pf] by simp
qed

lemma linked_truthyD:
  "linked_truthy st \<Longrightarrow> st (account_id_key p) = Some v \<Longrightarrow> truthy v"
  by (cases p) (simp_all add: linked_truthy_def)

lemma sync_preserves_linked_truthy:
  "linked_truthy (storage w) \<Longrightarrow> linked_truthy (storage (fst (sync q e w)))"
  using sync_storage [of q e w]
  by (cases q) (auto simp: linked_truthy_def split: option.splits)

lemma resume_never_removes:
  "storage (sync_resume p t pf out w) k = None \<Longrightarrow> storage w k = None"
  by (simp add: resume_storage split: fetch_outcome.splits response_body.splits if_splits)

lemma resume_writes_only:
  assumes "storage (sync_resume p t pf out w) \<noteq> storage w"
  shows "\<exists>st a ds. out = HttpResponse st (BodyData a ds) \<and> response_ok st \<and> truthy a
           \<and> \<not> truthy (field (snapshot pf) (account_id_key p))
           \<and> storage (sync_resume p t pf out w) = (storage w)(account_id_key p \<mapsto> a)"
  using assms
  by (auto simp: resume_storage split: fetch_outcome.splits response_body.splits if_splits)

lemma resume_after_linked:
  assumes "sync_begin p e w = (w1, Some pf)" and "storage w (account_id_key p) = Some v" and "truthy v"
  shows "storage (sync_resume p t pf out w2) = storage w2"
proof -
  from assms have "truthy (field (snapshot pf) (account_id_key p))"
    by (simp add: begin_in_flight)
  then show ?thesis
    by (simp add: resume_storage split: fetch_outcome.splits response_body.splits)
qed

lemma both_syncs_linked_truthy:
  "linked_truthy (storage w) \<Longrightarrow>
     linked_truthy (storage (fst (syncLinkedInCookies e (fst (syncInstagramCookies e w)))))"
  using sync_preserves_linked_truthy [of w Instagram e]
    sync_preserves_linked_truthy [of "fst (sync Instagram e w)" LinkedIn e]
  by simp

lemma linked_truthy_set_token:
  "linked_truthy (storage_set ''auth_token'' v st) = linked_truthy st"
  by (simp add: linked_truthy_def storage_set_def)

lemma linked_truthy_removed:
  "linked_truthy (storage_remove [''auth_token'', ''instagram_account_id'', ''linkedin_account_id''] st)"
  by (simp add: linked_truthy_def storage_remove_def)

lemma dispatch_preserves_linked_truthy:
  assumes l: "linked_truthy (storage w)"
  shows "linked_truthy (storage (fst (dispatch e ev w)))"
proof (cases ev)
  case (Alarm name)
  with both_syncs_linked_truthy [OF l, of e] l show ?thesis
    by (simp add: dispatch_def onAlarm_def split_def)
next
  case (Message m)
  from sync_preserves_linked_truthy [OF l, of Instagram e]
    sync_preserves_linked_truthy [OF l, of LinkedIn e] l Message
  show ?thesis
    by (simp add: dispatch_def onMessage_def Let_def split_def
        linked_truthy_set_token linked_truthy_removed)
next
  case (MessageExternal s m)
  from sync_preserves_linked_truthy [OF l, of Instagram e]
    sync_preserves_linked_truthy [OF l, of LinkedIn e]
    both_syncs_linked_truthy [OF l, of e] l MessageExternal
  show ?thesis
    by (simp add: dispatch_def onMessageExternal_def Let_def split_def linked_truthy_set_token)
next
  case (TimerFired cb)
  from sync_preserves_linked_truthy [OF l, of Instagram e]
    sync_preserves_linked_truthy [OF l, of LinkedIn e]
    both_syncs_linked_truthy [OF l, of e] TimerFired
  show ?thesis
    by (cases cb) (simp_all add: dispatch_def run_callback_def split_def)
qed

lemma run_events_linked_truthy:
  "linked_truthy (storage w) \<Longrightarrow> linked_truthy (storage (run_events hs w))"
proof (induction hs arbitrary: w)
  case Nil
  then show ?case by simp
next
  case (Cons h hs)
  obtain e ev where h: "h = (e, ev)" by (cases h)
  from Cons.IH [OF dispatch_preserves_linked_truthy [OF Cons.prems, of e ev]] h
  show ?case by simp
qed

lemma initial_linked_truthy: "linked_truthy (storage initial_world)"
  by (simp add: linked_truthy_def initial_world_def)


section \<open>Endpoint selection\<close>

lemma example_linkedin_refresh: "snd (sync LinkedIn (example_env session_cookies null_body_answer) (example_world linked_storage))
   = [linkedin_refresh_request]"
  by (simp add: example_defs sync_defs Let_def linked_storage_def
      linkedin_refresh_request_def example_linkedin_bundle_def)

lemma example_linked_truthy: "linked_truthy (storage (example_world linked_storage))"
  by (simp add: linked_truthy_def example_world_def linked_storage_def)

lemma example_create_stores: "storage (fst (sync Instagram (example_env session_cookies created_answer) logged_in_world))
         ''instagram_account_id'' = Some (JStr ''acc-1'')"
  by (simp add: example_defs sync_defs Let_def created_answer_def)

lemma example_history_no_logout: "no_logout example_history"
  by (simp add: no_logout_def example_history_def)

lemma example_later_sync_refreshes: "snd (sync Instagram (example_env session_cookies (HttpResponse 503 BodyNull))
             (run_events example_history
                (fst (sync Instagram (example_env session_cookies created_answer) logged_in_world))))
         = [refresh_request]"
  by (simp add: example_history_def dispatch_def onAlarm_def onMessageExternal_def run_callback_def
        trigger_sync_message_def origin_allowed_def allowedOrigins_def web_app_def
        example_defs sync_defs Let_def created_answer_def refresh_request_def)

lemma example_begin_create:
  "sync_begin Instagram (example_env session_cookies out) logged_in_world
     = (syncing_world [''auth_token'' \<mapsto> JStr ''tok''], Some create_in_flight)"
  by (simp add: sync_defs example_defs Let_def create_in_flight_def syncing_world_def
      syncing_status_def)

lemma example_begin_linked:
  "sync_begin Instagram (example_env session_cookies out) (example_world linked_storage)
     = (syncing_world linked_storage, Some refresh_in_flight)"
  by (simp add: sync_defs example_defs Let_def linked_storage_def refresh_in_flight_def
      refresh_request_def syncing_world_def syncing_status_def)

lemma resume_preserves_linked_truthy:
  assumes "linked_truthy (storage w)"
  shows "linked_truthy (storage (sync_resume p t pf out w))"
proof -
  have "storage (sync_resume p t pf out w) = storage w
        \<or> (\<exists>a. truthy a \<and> storage (sync_resume p t pf out w) = (storage w)(account_id_key p \<mapsto> a))"
    by (auto simp: resume_storage split: fetch_outcome.splits response_body.splits)
  with assms show ?thesis
    by (cases p) (auto simp: linked_truthy_def)
qed

lemma resume_written_truthy:
  assumes "storage w (account_id_key p) = None"
    and "storage (sync_resume p t pf out w) (account_id_key p) = Some v"
  shows "truthy v"
  using assms
  by (auto simp: resume_storage split: fetch_outcome.splits response_body.splits if_splits)

lemma begin_refreshes_stored:
  assumes "sync_begin p e w = (w1, Some pf)" and "storage w (account_id_key p) = Some v"
    and "truthy v"
  shows "endpoint (sent pf) = refresh_endpoint p v"
  using assms begin_in_flight [of p e w w1 pf] by simp

text \<open>
  Claim C2, as stated, after a create that stored \<open>acc-1\<close> for Instagram.  First: a Logout
  and a new token follow, and the next sync goes to the create endpoint.  Second: a sync
  that had started before the create stored \<open>acc-1\<close> gets its own answer, carrying
  \<open>acc-2\<close>, afterwards and overwrites the id; the next sync goes to the refresh endpoint
  for \<open>acc-2\<close>.  In neither case does the later sync use the refresh endpoint for
  \<open>acc-1\<close>.
\<close>

theorem later_sync_counterexample:
  "storage logged_in_world (account_id_key Instagram) = None
   \<and> storage (fst (sync Instagram (example_env session_cookies created_answer) logged_in_world))
        (account_id_key Instagram) = Some (JStr ''acc-1'')
   \<and> snd (sync Instagram (example_env session_cookies created_answer)
             (run_events logout_history
                (fst (sync Instagram (example_env session_cookies created_answer) logged_in_world))))
       = [connect_request]
   \<and> endpoint connect_request \<noteq> refresh_endpoint Instagram (JStr ''acc-1'')
   \<and> storage (syncing_world [''auth_token'' \<mapsto> JStr ''tok'']) (account_id_key Instagram) = None
   \<and> storage (sync_resume Instagram ''2024-05-01T10:00:00.000Z'' create_in_flight created_answer
                 (syncing_world [''auth_token'' \<mapsto> JStr ''tok'']))
        (account_id_key Instagram) = Some (JStr ''acc-1'')
   \<and> snd (sync Instagram (example_env session_cookies created_answer)
             (sync_resume Instagram ''2024-05-01T10:00:01.000Z'' create_in_flight second_answer
                (sync_resume Instagram ''2024-05-01T10:00:00.000Z'' create_in_flight created_answer
                   (syncing_world [''auth_token'' \<mapsto> JStr ''tok'']))))
       = [second_refresh_request]
   \<and> endpoint second_refresh_request \<noteq> refresh_endpoint Instagram (JStr ''acc-1'')"
proof -
  have 1: "storage logged_in_world (account_id_key Instagram) = None"
    by (simp add: logged_in_world_def example_world_def)
  have 2: "storage (fst (sync Instagram (example_env session_cookies created_answer) logged_in_world))
        (account_id_key Instagram) = Some (JStr ''acc-1'')"
    using example_create_stores by simp
  have 3: "snd (sync Instagram (example_env session_cookies created_answer)
             (run_events logout_history
                (fst (sync Instagram (example_env session_cookies created_answer) logged_in_world))))
       = [connect_request]"
    by (simp add: logout_history_def dispatch_def onMessage_def logout_message_def
        set_token_message_def storage_remove_def logged_out_status_def
        example_defs sync_defs Let_def created_answer_def)
  have 4: "endpoint connect_request \<noteq> refresh_endpoint Instagram (JStr ''acc-1'')"
    by (simp add: connect_request_def refresh_endpoint_def)
  have 5: "storage (syncing_world [''auth_token'' \<mapsto> JStr ''tok'']) (account_id_key Instagram) = None"
    by (simp add: syncing_world_def)
  have 6: "storage (sync_resume Instagram ''2024-05-01T10:00:00.000Z'' create_in_flight created_answer
                 (syncing_world [''auth_token'' \<mapsto> JStr ''tok'']))
        (account_id_key Instagram) = Some (JStr ''acc-1'')"
    by (simp add: sync_defs example_defs Let_def created_answer_def create_in_flight_def
        syncing_world_def)
  have 7: "snd (sync Instagram (example_env session_cookies created_answer)
             (sync_resume Instagram ''2024-05-01T10:00:01.000Z'' create_in_flight second_answer
                (sync_resume Instagram ''2024-05-01T10:00:00.000Z'' create_in_flight created_answer
                   (syncing_world [''auth_token'' \<mapsto> JStr ''tok'']))))
       = [second_refresh_request]"
    by (simp add: sync_defs example_defs Let_def created_answer_def second_answer_def
        create_in_flight_def syncing_world_def second_refresh_request_def)
  have 8: "endpoint second_refresh_request \<noteq> refresh_endpoint Instagram (JStr ''acc-1'')"
    by (simp add: second_refresh_request_def refresh_endpoint_def)
  from 1 2 3 4 5 6 7 8 show ?thesis by blast
qed

text \<open>
  Claim C2, amended.  For every sync invocation that sends its request: if an account id
  is stored for the platform when the invocation reads storage at its start, the request
  goes to the refresh endpoint \<open>.../accounts/<account_id>/sync-cookie\<close> for that id; if
  none is stored, it goes to the create endpoint \<open>.../accounts/connect/cookie\<close>.  The
  choice is made anew from the storage read at the start of each invocation, so after a
  create that stored an id, every later sync of that platform that starts while that id
  is still the stored one sends its request to the refresh endpoint for that id; and the
  id is still the stored one after every history of events, each handled to its end, that
  holds no Logout.  (A stored id is always truthy: \<open>linked_truthy\<close> holds of the empty
  store and is kept by every event and by every response handled.)
\<close>

theorem endpoint_selection:
  "(snd (sync p e w) = [r] \<and> storage w (account_id_key p) = Some v \<and> linked_truthy (storage w)
      \<longrightarrow> endpoint r = refresh_endpoint p v)
   \<and> (snd (sync p e w) = [r] \<and> storage w (account_id_key p) = None
      \<longrightarrow> endpoint r = create_endpoint p)
   \<and> (storage w (account_id_key p) = None
        \<and> storage (fst (sync p e w)) (account_id_key p) = Some v
        \<and> no_logout hs
        \<and> snd (sync p e' (run_events hs (fst (sync p e w)))) = [r']
      \<longrightarrow> endpoint r' = refresh_endpoint p v)
   \<and> linked_truthy (storage initial_world)
   \<and> (linked_truthy (storage w) \<longrightarrow> linked_truthy (storage (run_events hs w)))
   \<and> (snd (sync p e w) = [r] \<longrightarrow> (\<exists>w1 pf. sync_begin p e w = (w1, Some pf) \<and> sent pf = r))
   \<and> (sync_begin p e w = (w1, Some pf) \<and> storage w (account_id_key p) = Some v
        \<and> linked_truthy (storage w)
      \<longrightarrow> endpoint (sent pf) = refresh_endpoint p v)
   \<and> (sync_begin p e w = (w1, Some pf) \<and> storage w (account_id_key p) = None
      \<longrightarrow> endpoint (sent pf) = create_endpoint p)
   \<and> (storage w (account_id_key p) = None
        \<and> storage (fst (sync p e w)) (account_id_key p) = Some v
        \<and> storage w2 (account_id_key p) = Some v
        \<and> sync_begin p e' w2 = (w3, Some pf')
      \<longrightarrow> endpoint (sent pf') = refresh_endpoint p v)
   \<and> (storage w (account_id_key p) = None
        \<and> storage (sync_resume p t pf0 out w) (account_id_key p) = Some v
        \<and> storage w2 (account_id_key p) = Some v
        \<and> sync_begin p e' w2 = (w3, Some pf')
      \<longrightarrow> endpoint (sent pf') = refresh_endpoint p v)
   \<and> (linked_truthy (storage w) \<longrightarrow> linked_truthy (storage (sync_resume p t pf0 out w)))"
proof (intro conjI impI; (elim conjE)?)
  assume "snd (sync p e w) = [r]" "storage w (account_id_key p) = Some v" "linked_truthy (storage w)"
  then show "endpoint r = refresh_endpoint p v"
    using sync_endpoint [of p e w r] linked_truthyD [of "storage w" p v] by simp
next
  assume "snd (sync p e w) = [r]" "storage w (account_id_key p) = None"
  then show "endpoint r = create_endpoint p"
    using sync_endpoint [of p e w r] by simp
next
  assume a: "storage w (account_id_key p) = None"
    and b: "storage (fst (sync p e w)) (account_id_key p) = Some v"
    and n: "no_logout hs"
    and r: "snd (sync p e' (run_events hs (fst (sync p e w)))) = [r']"
  from a b have t: "truthy v" by (rule sync_written_truthy)
  from run_events_preserves_link [OF b t n]
  have "storage (run_events hs (fst (sync p e w))) (account_id_key p) = Some v" .
  with t show "endpoint r' = refresh_endpoint p v"
    using sync_endpoint [OF r] by simp
next
  show "linked_truthy (storage initial_world)" by (rule initial_linked_truthy)
next
  assume "linked_truthy (storage w)"
  then show "linked_truthy (storage (run_events hs w))" by (rule run_events_linked_truthy)
next
  assume "snd (sync p e w) = [r]"
  then show "\<exists>w1 pf. sync_begin p e w = (w1, Some pf) \<and> sent pf = r"
    using sync_sent by blast
next
  assume "sync_begin p e w = (w1, Some pf)" "storage w (account_id_key p) = Some v"
    "linked_truthy (storage w)"
  then show "endpoint (sent pf) = refresh_endpoint p v"
    using begin_refreshes_stored linked_truthyD by blast
next
  assume "sync_begin p e w = (w1, Some pf)" "storage w (account_id_key p) = None"
  then show "endpoint (sent pf) = create_endpoint p"
    using begin_in_flight [of p e w w1 pf] by simp
next
  assume a: "storage w (account_id_key p) = None"
    and b: "storage (fst (sync p e w)) (account_id_key p) = Some v"
    and c: "storage w2 (account_id_key p) = Some v"
    and d: "sync_begin p e' w2 = (w3, Some pf')"
  from a b have "truthy v" by (rule sync_written_truthy)
  with d c show "endpoint (sent pf') = refresh_endpoint p v"
    by (rule begin_refreshes_stored)
next
  assume a: "storage w (account_id_key p) = None"
    and b: "storage (sync_resume p t pf0 out w) (account_id_key p) = Some v"
    and c: "storage w2 (account_id_key p) = Some v"
    and d: "sync_begin p e' w2 = (w3, Some pf')"
  from a b have "truthy v" by (rule resume_written_truthy)
  with d c show "endpoint (sent pf') = refresh_endpoint p v"
    by (rule begin_refreshes_stored)
next
  assume "linked_truthy (storage w)"
  then show "linked_truthy (storage (sync_resume p t pf0 out w))"
    by (rule resume_preserves_linked_truthy)
qed

text \<open>
  C2 at a stored id, at a first sync, at a sync that follows a create, an alarm, an
  external trigger and a debounce timer, and at a sync that starts on a store which
  still holds the id a create stored.
\<close>

theorem endpoint_selection_witness:
  "snd (sync LinkedIn (example_env session_cookies null_body_answer) (example_world linked_storage))
     = [linkedin_refresh_request]
   \<and> storage (example_world linked_storage) (account_id_key LinkedIn) = Some (JNum ''42'' True)
   \<and> linked_truthy (storage (example_world linked_storage))
   \<and> endpoint linkedin_refresh_request = refresh_endpoint LinkedIn (JNum ''42'' True)
   \<and> snd (sync Instagram (example_env session_cookies created_answer) logged_in_world)
       = [connect_request]
   \<and> storage logged_in_world (account_id_key Instagram) = None
   \<and> endpoint connect_request = create_endpoint Instagram
   \<and> storage (fst (sync Instagram (example_env session_cookies created_answer) logged_in_world))
        (account_id_key Instagram) = Some (JStr ''acc-1'')
   \<and> no_logout example_history
   \<and> snd (sync Instagram (example_env session_cookies (HttpResponse 503 BodyNull))
             (run_events example_history
                (fst (sync Instagram (example_env session_cookies created_answer) logged_in_world))))
       = [refresh_request]
   \<and> endpoint refresh_request = refresh_endpoint Instagram (JStr ''acc-1'')
   \<and> sync_begin Instagram (example_env session_cookies second_answer) logged_in_world
       = (syncing_world [''auth_token'' \<mapsto> JStr ''tok''], Some create_in_flight)
   \<and> endpoint (sent create_in_flight) = create_endpoint Instagram
   \<and> sync_begin Instagram (example_env session_cookies second_answer) (example_world linked_storage)
       = (syncing_world linked_storage, Some refresh_in_flight)
   \<and> storage (example_world linked_storage) (account_id_key Instagram) = Some (JStr ''acc-1'')
   \<and> endpoint (sent refresh_in_flight) = refresh_endpoint Instagram (JStr ''acc-1'')
   \<and> storage (sync_resume Instagram ''2024-05-01T10:00:00.000Z'' create_in_flight created_answer
                 logged_in_world) (account_id_key Instagram) = Some (JStr ''acc-1'')
   \<and> linked_truthy (storage logged_in_world)
   \<and> linked_truthy (storage (sync_resume Instagram ''2024-05-01T10:00:00.000Z'' create_in_flight
                                 created_answer logged_in_world))"
proof -
  let ?t = "''2024-05-01T10:00:00.000Z''"
  have a1: "snd (sync LinkedIn (example_env session_cookies null_body_answer) (example_world linked_storage))
     = [linkedin_refresh_request]"
    by (rule example_linkedin_refresh)
  have a2: "storage (example_world linked_storage) (account_id_key LinkedIn) = Some (JNum ''42'' True)"
    by (simp add: example_world_def linked_storage_def)
  have a3: "linked_truthy (storage (example_world linked_storage))"
    by (rule example_linked_truthy)
  have b1: "snd (sync Instagram (example_env session_cookies created_answer) logged_in_world)
       = [connect_request]"
    by (rule example_sync_sends_connect)
  have b2: "storage logged_in_world (account_id_key Instagram) = None"
    by (simp add: logged_in_world_def example_world_def)
  have c1: "storage (fst (sync Instagram (example_env session_cookies created_answer) logged_in_world))
        (account_id_key Instagram) = Some (JStr ''acc-1'')"
    using example_create_stores by simp
  have c2: "no_logout example_history"
    by (rule example_history_no_logout)
  have c3: "snd (sync Instagram (example_env session_cookies (HttpResponse 503 BodyNull))
             (run_events example_history
                (fst (sync Instagram (example_env session_cookies created_answer) logged_in_world))))
       = [refresh_request]"
    by (rule example_later_sync_refreshes)
  have d1: "sync_begin Instagram (example_env session_cookies second_answer) logged_in_world
       = (syncing_world [''auth_token'' \<mapsto> JStr ''tok''], Some create_in_flight)"
    by (rule example_begin_create)
  have d2: "sync_begin Instagram (example_env session_cookies second_answer) (example_world linked_storage)
       = (syncing_world linked_storage, Some refresh_in_flight)"
    by (rule example_begin_linked)
  have d3: "storage (example_world linked_storage) (account_id_key Instagram) = Some (JStr ''acc-1'')"
    by (simp add: example_world_def linked_storage_def)
  have d4: "storage (sync_resume Instagram ?t create_in_flight created_answer logged_in_world)
              (account_id_key Instagram) = Some (JStr ''acc-1'')"
    by (simp add: sync_defs example_defs Let_def created_answer_def create_in_flight_def)
  have d5: "linked_truthy (storage logged_in_world)"
    by (simp add: linked_truthy_def logged_in_world_def example_world_def)
  from a1 a2 a3 endpoint_selection
    [where p = LinkedIn and e = "example_env session_cookies null_body_answer"
       and w = "example_world linked_storage" and r = linkedin_refresh_request
       and v = "JNum ''42'' True"]
  have A: "endpoint linkedin_refresh_request = refresh_endpoint LinkedIn (JNum ''42'' True)" by blast
  from b1 b2 endpoint_selection
    [where p = Instagram and e = "example_env session_cookies created_answer"
       and w = logged_in_world and r = connect_request]
  have B: "endpoint connect_request = create_endpoint Instagram" by blast
  from b2 c1 c2 c3 endpoint_selection
    [where p = Instagram and e = "example_env session_cookies created_answer"
       and w = logged_in_world and v = "JStr ''acc-1''" and hs = example_history
       and e' = "example_env session_cookies (HttpResponse 503 BodyNull)" and r' = refresh_request]
  have C: "endpoint refresh_request = refresh_endpoint Instagram (JStr ''acc-1'')" by blast
  from d1 b2 endpoint_selection
    [where p = Instagram and e = "example_env session_cookies second_answer"
       and w = logged_in_world and ?w1.0 = "syncing_world [''auth_token'' \<mapsto> JStr ''tok'']"
       and pf = create_in_flight]
  have D: "endpoint (sent create_in_flight) = create_endpoint Instagram" by blast
  from d2 d3 a3 endpoint_selection
    [where p = Instagram and e = "example_env session_cookies second_answer"
       and w = "example_world linked_storage" and ?w1.0 = "syncing_world linked_storage"
       and pf = refresh_in_flight and v = "JStr ''acc-1''"]
  have E: "endpoint (sent refresh_in_flight) = refresh_endpoint Instagram (JStr ''acc-1'')" by blast
  note inst = endpoint_selection
    [where p = Instagram and e = "example_env session_cookies created_answer"
       and w = logged_in_world and v = "JStr ''acc-1''"
       and ?w2.0 = "example_world linked_storage"
       and e' = "example_env session_cookies second_answer"
       and ?w3.0 = "syncing_world linked_storage" and pf' = refresh_in_flight
       and t = ?t and ?pf0.0 = create_in_flight and out = created_answer]
  from b2 c1 d3 d2 inst
  have F: "endpoint (sent refresh_in_flight) = refresh_endpoint Instagram (JStr ''acc-1'')" by blast
  from b2 d4 d3 d2 inst
  have G: "endpoint (sent refresh_in_flight) = refresh_endpoint Instagram (JStr ''acc-1'')" by blast
  from d5 inst
  have H: "linked_truthy (storage (sync_resume Instagram ?t create_in_flight created_answer
                                     logged_in_world))"
    by blast
  from a1 a2 a3 A b1 b2 B c1 c2 c3 C d1 D d2 d3 E d4 d5 H show ?thesis by blast
qed

section \<open>The stored account id\<close>

lemma sync_other_key:
  "k \<noteq> account_id_key q \<Longrightarrow> storage (fst (sync q e w)) k = storage w k"
  using sync_storage [of q e w] by auto

lemma sync_change:
  assumes "storage (fst (sync q e w)) (account_id_key p) \<noteq> storage w (account_id_key p)"
  shows "p = q \<and> written_by_create q e w (snd (sync q e w)) (fst (sync q e w))"
proof -
  have qp: "q = p"
    using assms sync_other_key [of "account_id_key p" q e w] by (auto simp: account_id_key_inj)
  from sync_storage [of q e w] assms obtain r st a ds where
    r: "snd (sync q e w) = [r]" and f: "fetch e r = HttpResponse st (BodyData a ds)"
    and ok: "response_ok st" and ta: "truthy a"
    and nt: "\<not> truthy (field (storage w) (account_id_key q))"
    and st: "storage (fst (sync q e w)) = (storage w)(account_id_key q \<mapsto> a)"
    by auto
  from sync_endpoint [OF r] nt have "endpoint r = create_endpoint q" by simp
  with qp r f ok ta nt st show ?thesis
    by (auto simp: written_by_create_def)
qed

lemma written_by_create_mono:
  "written_by_create p e w rs w' \<Longrightarrow> set rs \<subseteq> set rs' \<Longrightarrow> written_by_create p e w rs' w'"
  by (auto simp: written_by_create_def)

lemma both_syncs_change:
  assumes "storage (fst (syncLinkedInCookies e (fst (syncInstagramCookies e w)))) (account_id_key p)
             \<noteq> storage w (account_id_key p)"
  shows "written_by_create p e w
           (snd (syncInstagramCookies e w) @ snd (syncLinkedInCookies e (fst (syncInstagramCookies e w))))
           (fst (syncLinkedInCookies e (fst (syncInstagramCookies e w))))"
proof (cases p)
  case Instagram
  let ?w1 = "fst (sync Instagram e w)"
  have keep: "storage (fst (sync LinkedIn e ?w1)) (account_id_key p) = storage ?w1 (account_id_key p)"
    using Instagram by (intro sync_other_key) simp
  with assms have "storage ?w1 (account_id_key p) \<noteq> storage w (account_id_key p)" by simp
  from sync_change [OF this]
  have "written_by_create p e w (snd (sync Instagram e w)) ?w1" by auto
  with keep show ?thesis
    by (auto simp: written_by_create_def)
next
  case LinkedIn
  let ?w1 = "fst (sync Instagram e w)"
  have same: "storage ?w1 (account_id_key p) = storage w (account_id_key p)"
    using LinkedIn by (intro sync_other_key) simp
  with assms have "storage (fst (sync LinkedIn e ?w1)) (account_id_key p)
      \<noteq> storage ?w1 (account_id_key p)" by simp
  from sync_change [OF this]
  have "written_by_create p e ?w1 (snd (sync LinkedIn e ?w1)) (fst (sync LinkedIn e ?w1))" by auto
  with same show ?thesis
    by (auto simp: written_by_create_def field_def)
qed

lemma dispatch_change:
  assumes ch: "storage (fst (dispatch e ev w)) (account_id_key p) \<noteq> storage w (account_id_key p)"
  shows "(is_logout ev \<and> storage (fst (dispatch e ev w)) (account_id_key p) = None)
         \<or> written_by_create p e w (snd (dispatch e ev w)) (fst (dispatch e ev w))"
proof (cases ev)
  case (Alarm name)
  show ?thesis
  proof (cases "name = ''fallbackSync''")
    case True
    with Alarm ch both_syncs_change [of e w p] show ?thesis
      by (simp add: dispatch_def onAlarm_def split_def)
  next
    case False
    with Alarm ch show ?thesis by (simp add: dispatch_def onAlarm_def)
  qed
next
  case (Message m)
  consider (manual_ig) "msg_type m = JStr ''MANUAL_SYNC''" "platform m = JStr ''instagram''"
    | (manual_li) "msg_type m = JStr ''MANUAL_SYNC''" "platform m \<noteq> JStr ''instagram''"
        "platform m = JStr ''linkedin''"
    | (logout) "msg_type m = JStr ''LOGOUT''"
    | (other) "\<not> (msg_type m = JStr ''MANUAL_SYNC'' \<and> (platform m = JStr ''instagram'' \<or> platform m = JStr ''linkedin''))"
        "msg_type m \<noteq> JStr ''LOGOUT''"
    by blast
  then show ?thesis
  proof cases
    case manual_ig
    with Message ch have "storage (fst (sync Instagram e w)) (account_id_key p) \<noteq> storage w (account_id_key p)"
      by (simp add: dispatch_def onMessage_def split_def Let_def)
    from sync_change [OF this] manual_ig Message show ?thesis
      by (auto simp: dispatch_def onMessage_def split_def Let_def)
  next
    case manual_li
    with Message ch have "storage (fst (sync LinkedIn e w)) (account_id_key p) \<noteq> storage w (account_id_key p)"
      by (simp add: dispatch_def onMessage_def split_def Let_def)
    from sync_change [OF this] manual_li Message show ?thesis
      by (auto simp: dispatch_def onMessage_def split_def Let_def)
  next
    case logout
    with Message show ?thesis
      by (cases p) (simp_all add: dispatch_def onMessage_def Let_def storage_remove_def)
  next
    case other
    with Message ch show ?thesis
      by (auto simp: dispatch_def onMessage_def Let_def storage_set_other split: if_splits)
  qed
next
  case (MessageExternal s m)
  let ?ig = "platform m = JStr ''instagram'' \<or> platform m = JStr ''all''"
  let ?li = "platform m = JStr ''linkedin'' \<or> platform m = JStr ''all''"
  consider (both) "origin_allowed s" "msg_type m = JStr ''TRIGGER_SYNC''" "platform m = JStr ''all''"
    | (ig) "origin_allowed s" "msg_type m = JStr ''TRIGGER_SYNC''" "platform m = JStr ''instagram''"
    | (li) "origin_allowed s" "msg_type m = JStr ''TRIGGER_SYNC''" "platform m = JStr ''linkedin''"
    | (other) "\<not> (origin_allowed s \<and> msg_type m = JStr ''TRIGGER_SYNC''
                 \<and> (platform m = JStr ''all'' \<or> platform m = JStr ''instagram'' \<or> platform m = JStr ''linkedin''))"
    by blast
  then show ?thesis
  proof cases
    case both
    with MessageExternal ch both_syncs_change [of e w p] show ?thesis
      by (simp add: dispatch_def onMessageExternal_def split_def Let_def)
  next
    case ig
    with MessageExternal ch have "storage (fst (sync Instagram e w)) (account_id_key p) \<noteq> storage w (account_id_key p)"
      by (simp add: dispatch_def onMessageExternal_def split_def Let_def)
    from sync_change [OF this] ig MessageExternal show ?thesis
      by (auto simp: dispatch_def onMessageExternal_def split_def Let_def)
  next
    case li
    with MessageExternal ch have "storage (fst (sync LinkedIn e w)) (account_id_key p) \<noteq> storage w (account_id_key p)"
      by (simp add: dispatch_def onMessageExternal_def split_def Let_def)
    from sync_change [OF this] li MessageExternal show ?thesis
      by (auto simp: dispatch_def onMessageExternal_def split_def Let_def)
  next
    case other
    with MessageExternal ch show ?thesis
      by (auto simp: dispatch_def onMessageExternal_def Let_def storage_set_other split: if_splits)
  qed
next
  case (TimerFired cb)
  show ?thesis
  proof (cases cb)
    case DebouncedInstagram
    with TimerFired ch have "storage (fst (sync Instagram e w)) (account_id_key p) \<noteq> storage w (account_id_key p)"
      by (simp add: dispatch_def run_callback_def)
    from sync_change [OF this] DebouncedInstagram TimerFired show ?thesis
      by (auto simp: dispatch_def run_callback_def)
  next
    case DebouncedLinkedIn
    with TimerFired ch have "storage (fst (sync LinkedIn e w)) (account_id_key p) \<noteq> storage w (account_id_key p)"
      by (simp add: dispatch_def run_callback_def)
    from sync_change [OF this] DebouncedLinkedIn TimerFired show ?thesis
      by (auto simp: dispatch_def run_callback_def)
  next
    case InitialSync
    with TimerFired ch both_syncs_change [of e w p] show ?thesis
      by (simp add: dispatch_def run_callback_def split_def)
  qed
qed


text \<open>
  Claim C3, as stated, at two overlapping Instagram syncs of a user with no linked account.
  Both read storage before either response arrives, so both hold a snapshot without an
  account id.  The first response stores \<open>acc-1\<close>; the second response, which carries
  \<open>acc-2\<close>, is still judged against the second sync's own snapshot and overwrites it: the
  id is written while one is linked, and a set id is overwritten by a later response.
\<close>

theorem overlapping_creates_counterexample:
  "sync_begin Instagram (example_env session_cookies created_answer) logged_in_world
     = (syncing_world [''auth_token'' \<mapsto> JStr ''tok''], Some create_in_flight)
   \<and> sync_begin Instagram (example_env session_cookies second_answer)
        (syncing_world [''auth_token'' \<mapsto> JStr ''tok''])
     = (syncing_world [''auth_token'' \<mapsto> JStr ''tok''], Some create_in_flight)
   \<and> storage (sync_resume Instagram ''2024-05-01T10:00:00.000Z'' create_in_flight created_answer
                 (syncing_world [''auth_token'' \<mapsto> JStr ''tok'']))
        ''instagram_account_id'' = Some (JStr ''acc-1'')
   \<and> storage (sync_resume Instagram ''2024-05-01T10:00:01.000Z'' create_in_flight second_answer
                 (sync_resume Instagram ''2024-05-01T10:00:00.000Z'' create_in_flight created_answer
                    (syncing_world [''auth_token'' \<mapsto> JStr ''tok''])))
        ''instagram_account_id'' = Some (JStr ''acc-2'')"
  by (simp add: example_defs sync_defs Let_def created_answer_def second_answer_def
      create_in_flight_def syncing_world_def syncing_status_def)

text \<open>
  Claim C3, amended.  For every platform: the stored account id is written only on a
  response with a status in 200..299 whose body carries a truthy \<open>account_id\<close>, and only
  when the storage that this sync invocation read at its start held no (truthy) id for the
  platform; what is written is that \<open>account_id\<close>.  A sync invocation that starts while an
  id is stored never writes storage, whatever happens before its response arrives, so no
  sync started after the id was set overwrites it.  No sync removes a key, and of the
  events the program handles, each run to its end, only Logout removes or changes a
  stored id.  Nothing but a sync writes the id: whenever an event, handled to its end,
  changes what is stored under the platform's key, either the event is Logout and the key
  is gone, or the store held no id before and one of the requests sent went to the
  platform's create endpoint and was answered with a status in 200..299 and the
  \<open>account_id\<close> now stored; and the first half of a sync, up to its request, never
  changes storage.
\<close>

theorem linkage_written_once:
  "(storage (sync_resume p t pf out w) \<noteq> storage w \<longrightarrow>
      (\<exists>st a ds. out = HttpResponse st (BodyData a ds) \<and> response_ok st \<and> truthy a
         \<and> \<not> truthy (field (snapshot pf) (account_id_key p))
         \<and> storage (sync_resume p t pf out w) = (storage w)(account_id_key p \<mapsto> a)))
   \<and> (sync_begin p e w = (w1, Some pf) \<longrightarrow>
        storage w1 = storage w
        \<and> field (snapshot pf) (account_id_key p) = field (storage w) (account_id_key p))
   \<and> (sync_begin p e w = (w1, Some pf) \<and> storage w (account_id_key p) = Some v \<and> truthy v \<longrightarrow>
        storage (sync_resume p t pf out w2) = storage w2)
   \<and> (storage (fst (sync p e w)) \<noteq> storage w \<longrightarrow>
        (\<exists>r st a ds. snd (sync p e w) = [r] \<and> fetch e r = HttpResponse st (BodyData a ds)
           \<and> response_ok st \<and> truthy a \<and> \<not> truthy (field (storage w) (account_id_key p))
           \<and> storage (fst (sync p e w)) = (storage w)(account_id_key p \<mapsto> a)))
   \<and> (storage w (account_id_key p) = Some v \<and> truthy v \<and> \<not> is_logout ev \<longrightarrow>
        storage (fst (dispatch e ev w)) (account_id_key p) = Some v)
   \<and> (storage (sync_resume p t pf out w) k = None \<longrightarrow> storage w k = None)
   \<and> (storage (fst (dispatch e ev w)) (account_id_key p) \<noteq> storage w (account_id_key p) \<longrightarrow>
        (is_logout ev \<and> storage (fst (dispatch e ev w)) (account_id_key p) = None)
        \<or> written_by_create p e w (snd (dispatch e ev w)) (fst (dispatch e ev w)))
   \<and> (sync_begin p e w = (w1, x) \<longrightarrow> storage w1 = storage w)"
proof (intro conjI impI)
  assume "storage (sync_resume p t pf out w) \<noteq> storage w"
  then show "\<exists>st a ds. out = HttpResponse st (BodyData a ds) \<and> response_ok st \<and> truthy a
         \<and> \<not> truthy (field (snapshot pf) (account_id_key p))
         \<and> storage (sync_resume p t pf out w) = (storage w)(account_id_key p \<mapsto> a)"
    by (rule resume_writes_only)
next
  assume "sync_begin p e w = (w1, Some pf)"
  then show "storage w1 = storage w" by (rule begin_storage)
next
  assume "sync_begin p e w = (w1, Some pf)"
  then show "field (snapshot pf) (account_id_key p) = field (storage w) (account_id_key p)"
    by (simp add: begin_in_flight)
next
  assume "sync_begin p e w = (w1, Some pf) \<and> storage w (account_id_key p) = Some v \<and> truthy v"
  then show "storage (sync_resume p t pf out w2) = storage w2"
    using resume_after_linked by blast
next
  assume "storage (fst (sync p e w)) \<noteq> storage w"
  then show "\<exists>r st a ds. snd (sync p e w) = [r] \<and> fetch e r = HttpResponse st (BodyData a ds)
           \<and> response_ok st \<and> truthy a \<and> \<not> truthy (field (storage w) (account_id_key p))
           \<and> storage (fst (sync p e w)) = (storage w)(account_id_key p \<mapsto> a)"
    using sync_storage [of p e w] by blast
next
  assume "storage w (account_id_key p) = Some v \<and> truthy v \<and> \<not> is_logout ev"
  then show "storage (fst (dispatch e ev w)) (account_id_key p) = Some v"
    using dispatch_preserves_link by blast
next
  assume "storage (sync_resume p t pf out w) k = None"
  then show "storage w k = None" by (rule resume_never_removes)
next
  assume "storage (fst (dispatch e ev w)) (account_id_key p) \<noteq> storage w (account_id_key p)"
  then show "(is_logout ev \<and> storage (fst (dispatch e ev w)) (account_id_key p) = None)
        \<or> written_by_create p e w (snd (dispatch e ev w)) (fst (dispatch e ev w))"
    by (rule dispatch_change)
next
  assume "sync_begin p e w = (w1, x)"
  then show "storage w1 = storage w" by (rule begin_storage)
qed

text \<open>
  C3 at a first sync that stores an id, at a sync started on a linked account, at a
  fallback alarm on a linked account, at a manual sync that creates the link, and at a
  \<open>SET_AUTH_TOKEN\<close> message, which leaves the id alone.
\<close>

theorem linkage_written_once_witness:
  "storage (sync_resume Instagram ''2024-05-01T10:00:00.000Z'' create_in_flight created_answer
              (syncing_world [''auth_token'' \<mapsto> JStr ''tok'']))
     \<noteq> storage (syncing_world [''auth_token'' \<mapsto> JStr ''tok''])
   \<and> storage (sync_resume Instagram ''2024-05-01T10:00:00.000Z'' create_in_flight created_answer
              (syncing_world [''auth_token'' \<mapsto> JStr ''tok'']))
     = (storage (syncing_world [''auth_token'' \<mapsto> JStr ''tok'']))
         (account_id_key Instagram \<mapsto> JStr ''acc-1'')
   \<and> sync_begin Instagram (example_env session_cookies second_answer) (example_world linked_storage)
     = (syncing_world linked_storage, Some refresh_in_flight)
   \<and> storage (example_world linked_storage) (account_id_key Instagram) = Some (JStr ''acc-1'')
   \<and> truthy (JStr ''acc-1'')
   \<and> storage (syncing_world linked_storage) = storage (example_world linked_storage)
   \<and> storage (sync_resume Instagram ''2024-05-01T10:00:00.000Z'' refresh_in_flight second_answer
                 logged_in_world)
     = storage logged_in_world
   \<and> storage (fst (sync Instagram (example_env session_cookies created_answer) logged_in_world))
     \<noteq> storage logged_in_world
   \<and> storage (fst (sync Instagram (example_env session_cookies created_answer) logged_in_world))
     = (storage logged_in_world)(account_id_key Instagram \<mapsto> JStr ''acc-1'')
   \<and> \<not> is_logout (Alarm ''fallbackSync'')
   \<and> storage (fst (dispatch (example_env session_cookies second_answer) (Alarm ''fallbackSync'')
                      (example_world linked_storage)))
        (account_id_key Instagram) = Some (JStr ''acc-1'')
   \<and> storage (sync_resume Instagram ''2024-05-01T10:00:00.000Z'' create_in_flight created_answer
                 logged_in_world) ''linkedin_account_id'' = None
   \<and> storage logged_in_world ''linkedin_account_id'' = None
   \<and> storage (fst (dispatch (example_env session_cookies created_answer)
                      (Message (manual_sync_message (JStr ''instagram''))) logged_in_world))
        (account_id_key Instagram)
       \<noteq> storage logged_in_world (account_id_key Instagram)
   \<and> \<not> is_logout (Message (manual_sync_message (JStr ''instagram'')))
   \<and> written_by_create Instagram (example_env session_cookies created_answer) logged_in_world
        (snd (dispatch (example_env session_cookies created_answer)
                (Message (manual_sync_message (JStr ''instagram''))) logged_in_world))
        (fst (dispatch (example_env session_cookies created_answer)
                (Message (manual_sync_message (JStr ''instagram''))) logged_in_world))
   \<and> \<not> is_logout (Message (set_token_message (JStr ''acc-9'')))
   \<and> snd (dispatch (example_env session_cookies created_answer)
             (Message (set_token_message (JStr ''acc-9''))) logged_in_world) = []
   \<and> storage (fst (dispatch (example_env session_cookies created_answer)
                      (Message (set_token_message (JStr ''acc-9''))) logged_in_world))
        (account_id_key Instagram)
       = storage logged_in_world (account_id_key Instagram)"
proof -
  let ?t = "''2024-05-01T10:00:00.000Z''"
  let ?w = "syncing_world [''auth_token'' \<mapsto> JStr ''tok'']"
  have "storage (sync_resume Instagram ?t create_in_flight created_answer ?w) ''instagram_account_id''
          \<noteq> storage ?w ''instagram_account_id''"
    by (simp add: sync_defs example_defs Let_def created_answer_def create_in_flight_def
        syncing_world_def)
  then have h1: "storage (sync_resume Instagram ?t create_in_flight created_answer ?w) \<noteq> storage ?w"
    by auto
  have h2: "sync_begin Instagram (example_env session_cookies second_answer) (example_world linked_storage)
     = (syncing_world linked_storage, Some refresh_in_flight)"
    by (simp add: sync_defs example_defs Let_def linked_storage_def refresh_in_flight_def
        refresh_request_def syncing_world_def syncing_status_def)
  have h3: "storage (example_world linked_storage) (account_id_key Instagram) = Some (JStr ''acc-1'')"
    by (simp add: example_world_def linked_storage_def)
  have h3': "truthy (JStr ''acc-1'')" by simp
  have "storage (fst (sync Instagram (example_env session_cookies created_answer) logged_in_world))
          ''instagram_account_id'' \<noteq> storage logged_in_world ''instagram_account_id''"
    by (simp add: sync_defs example_defs Let_def created_answer_def)
  then have h4: "storage (fst (sync Instagram (example_env session_cookies created_answer) logged_in_world))
     \<noteq> storage logged_in_world"
    by auto
  have h5: "\<not> is_logout (Alarm ''fallbackSync'')" by simp
  have h6: "storage (sync_resume Instagram ?t create_in_flight created_answer logged_in_world)
              ''linkedin_account_id'' = None"
    by (simp add: sync_defs example_defs Let_def created_answer_def create_in_flight_def)
  note inst1 = linkage_written_once
      [where p = Instagram and t = ?t and pf = create_in_flight and out = created_answer
         and w = ?w]
  from h1 inst1
  have c1: "storage (sync_resume Instagram ?t create_in_flight created_answer ?w)
     = (storage ?w)(account_id_key Instagram \<mapsto> JStr ''acc-1'')"
    by (auto simp: created_answer_def)
  note inst2 = linkage_written_once
      [where p = Instagram and t = ?t and pf = refresh_in_flight and out = second_answer
         and w = "example_world linked_storage"
         and e = "example_env session_cookies second_answer"
         and ?w1.0 = "syncing_world linked_storage" and v = "JStr ''acc-1''"
         and ?w2.0 = logged_in_world and ev = "Alarm ''fallbackSync''"]
  from h2 h3 h3' inst2
  have c2: "storage (syncing_world linked_storage) = storage (example_world linked_storage)"
    and c3: "storage (sync_resume Instagram ?t refresh_in_flight second_answer logged_in_world)
     = storage logged_in_world"
    by blast+
  from h3 h3' h5 inst2
  have c5: "storage (fst (dispatch (example_env session_cookies second_answer) (Alarm ''fallbackSync'')
                      (example_world linked_storage)))
        (account_id_key Instagram) = Some (JStr ''acc-1'')"
    by blast
  note inst3 = linkage_written_once
      [where p = Instagram and t = ?t and pf = create_in_flight and out = created_answer
         and w = logged_in_world and e = "example_env session_cookies created_answer"
         and k = "''linkedin_account_id''"]
  from h4 inst3
  have c4: "storage (fst (sync Instagram (example_env session_cookies created_answer) logged_in_world))
     = (storage logged_in_world)(account_id_key Instagram \<mapsto> JStr ''acc-1'')"
    by (auto simp: example_env_def answer_with_def created_answer_def)
  from h6 inst3 have c6: "storage logged_in_world ''linkedin_account_id'' = None"
    by blast
  let ?e = "example_env session_cookies created_answer"
  let ?manual = "Message (manual_sync_message (JStr ''instagram''))"
  let ?set = "Message (set_token_message (JStr ''acc-9''))"
  have h7: "storage (fst (dispatch ?e ?manual logged_in_world)) (account_id_key Instagram)
       \<noteq> storage logged_in_world (account_id_key Instagram)"
    by (simp add: dispatch_def onMessage_def manual_sync_message_def
        sync_defs example_defs Let_def created_answer_def)
  have h8: "\<not> is_logout ?manual" by (simp add: manual_sync_message_def)
  from h7 h8 linkage_written_once
      [where p = Instagram and e = ?e and ev = ?manual and w = logged_in_world]
  have c7: "written_by_create Instagram ?e logged_in_world
        (snd (dispatch ?e ?manual logged_in_world)) (fst (dispatch ?e ?manual logged_in_world))"
    by blast
  have h9: "\<not> is_logout ?set" by (simp add: set_token_message_def)
  have h10: "snd (dispatch ?e ?set logged_in_world) = []"
    by (simp add: dispatch_def onMessage_def set_token_message_def)
  then have h11: "\<not> written_by_create Instagram ?e logged_in_world
        (snd (dispatch ?e ?set logged_in_world)) (fst (dispatch ?e ?set logged_in_world))"
    by (simp add: written_by_create_def)
  from h9 h11 linkage_written_once
      [where p = Instagram and e = ?e and ev = ?set and w = logged_in_world]
  have c8: "storage (fst (dispatch ?e ?set logged_in_world)) (account_id_key Instagram)
       = storage logged_in_world (account_id_key Instagram)"
    by blast
  from h1 c1 h2 h3 h3' c2 c3 h4 c4 h5 c5 h6 c6 h7 h8 c7 h9 h10 c8 show ?thesis by blast
qed

section \<open>Debouncing\<close>







lemma debounce_callback_inj: "(debounce_callback p = debounce_callback q) = (p = q)"
  by (cases p; cases q) simp_all










lemma clock_rearm [simp]: "clock (rearm p s) = clock s"
  by (simp add: rearm_def)

lemma timers_of_advance:
  "timers_of p (fst (advance t s)) = filter (\<lambda>tm. t < due tm) (timers_of p s)"
  by (simp add: timers_of_def advance_def) (metis (mono_tags, lifting) filter_cong)

lemma clock_advance [simp]: "clock (fst (advance t s)) = max t (clock s)"
  by (simp add: advance_def)










text \<open>
  C4 at three Instagram cookie changes at 1000, 1500 and 3400 ms: one sync, at 5400 ms.
\<close>

lemma example_burst_run:
  "snd (run_scheduler (notifications example_burst @ [(6000, Tick)]) initial_scheduler)
     = [(5400, DebouncedInstagram)]"
  by (simp add: example_burst_def notifications_def initial_scheduler_def advance_def
      onChanged_def setTimeout_def clearTimeout_def session_change_def csrf_change_def
      INSTAGRAM_COOKIES_def LINKEDIN_COOKIES_def DEBOUNCE_MS_def Let_def)


end
